theory Spec2Isabelle
  imports Main
begin

section \<open>Strings\<close>

text \<open>
  Strings are lists of characters. The helpers below are the JavaScript string
  operations the program uses: \<^verbatim>\<open>startsWith\<close>, \<^verbatim>\<open>endsWith\<close>, \<^verbatim>\<open>includes\<close>,
  \<^verbatim>\<open>toLowerCase\<close>, \<^verbatim>\<open>toUpperCase\<close> (on the ASCII letters; other characters are
  left alone), \<^verbatim>\<open>split\<close> on a one-character separator and \<^verbatim>\<open>join\<close>.
\<close>

definition startsWith :: "string \<Rightarrow> string \<Rightarrow> bool" where
  "startsWith s p = (take (length p) s = p)"

definition endsWith :: "string \<Rightarrow> string \<Rightarrow> bool" where
  "endsWith s p = (length p \<le> length s \<and> drop (length s - length p) s = p)"

fun includes_str :: "string \<Rightarrow> string \<Rightarrow> bool" where
  "includes_str [] sub = (sub = [])"
| "includes_str (c # cs) sub = (startsWith (c # cs) sub \<or> includes_str cs sub)"

definition toLowerChar :: "char \<Rightarrow> char" where
  "toLowerChar c =
     (case map_of (zip ''ABCDEFGHIJKLMNOPQRSTUVWXYZ'' ''abcdefghijklmnopqrstuvwxyz'') c of
        Some l \<Rightarrow> l | None \<Rightarrow> c)"

definition toUpperChar :: "char \<Rightarrow> char" where
  "toUpperChar c =
     (case map_of (zip ''abcdefghijklmnopqrstuvwxyz'' ''ABCDEFGHIJKLMNOPQRSTUVWXYZ'') c of
        Some u \<Rightarrow> u | None \<Rightarrow> c)"

definition toLowerCase :: "string \<Rightarrow> string" where
  "toLowerCase s = map toLowerChar s"

definition toUpperCase :: "string \<Rightarrow> string" where
  "toUpperCase s = map toUpperChar s"

text \<open>A line terminator is what the regular expression dot does not match.\<close>

definition isLineTerminator :: "char \<Rightarrow> bool" where
  "isLineTerminator c = (c = CHR 0x0A \<or> c = CHR 0x0D)"

text \<open>
  \<^verbatim>\<open>key.match(/^(.+)SUFFIX$/)\<close>: the key ends with the suffix, and what stands before
  it is not empty and holds no line terminator. The result is the captured group.
\<close>

definition matchSuffix :: "string \<Rightarrow> string \<Rightarrow> string option" where
  "matchSuffix suffix key =
     (let n = length key - length suffix; pre = take n key
      in if length suffix < length key \<and> drop n key = suffix
            \<and> list_all (\<lambda>c. \<not> isLineTerminator c) pre
         then Some pre else None)"

section \<open>Values\<close>

text \<open>
  The program passes JSON-like values of type \<^verbatim>\<open>any\<close> around: arguments of a tool
  call, fragments of a description document, response bodies. They are modelled as
  finite trees; the objects of a document that contain themselves are added to
  them where the schema synthesizer is modelled. Numbers are the integers. An
  object is the list of its own properties in insertion order; a property read
  takes the first entry of a key, and members inherited from a prototype are not
  part of the model.
\<close>

datatype jsval =
    JUndefined
  | JNull
  | JBool bool
  | JNum int
  | JStr string
  | JArr "jsval list"
  | JObj "(string \<times> jsval) list"

text \<open>Truthiness, as \<^verbatim>\<open>if (v)\<close>, \<^verbatim>\<open>!v\<close> and \<^verbatim>\<open>a || b\<close> read a value.\<close>

fun truthy :: "jsval \<Rightarrow> bool" where
  "truthy JUndefined = False"
| "truthy JNull = False"
| "truthy (JBool b) = b"
| "truthy (JNum n) = (n \<noteq> 0)"
| "truthy (JStr s) = (s \<noteq> [])"
| "truthy (JArr xs) = True"
| "truthy (JObj kvs) = True"

definition js_or :: "jsval \<Rightarrow> jsval \<Rightarrow> jsval" where
  "js_or a b = (if truthy a then a else b)"

text \<open>\<^verbatim>\<open>a ?? b\<close>: the right operand stands in for undefined and null only.\<close>

definition nullish_or :: "jsval \<Rightarrow> jsval \<Rightarrow> jsval" where
  "nullish_or a b = (if a = JUndefined \<or> a = JNull then b else a)"

text \<open>\<^verbatim>\<open>typeof v === "object"\<close> holds of objects, arrays and null.\<close>

fun typeofObject :: "jsval \<Rightarrow> bool" where
  "typeofObject JNull = True"
| "typeofObject (JArr xs) = True"
| "typeofObject (JObj kvs) = True"
| "typeofObject v = False"

text \<open>Decimal digits of a natural number, and \<^verbatim>\<open>String(v)\<close>.\<close>

fun showNat :: "nat \<Rightarrow> string" where
  "showNat n = (if n < 10 then [''0123456789'' ! n]
                else showNat (n div 10) @ [''0123456789'' ! (n mod 10)])"

declare showNat.simps [simp del]

definition joinWith :: "string \<Rightarrow> string list \<Rightarrow> string" where
  "joinWith sep parts = (case parts of [] \<Rightarrow> [] | p # ps \<Rightarrow> p @ concat (map (\<lambda>q. sep @ q) ps))"

fun js_String :: "jsval \<Rightarrow> string" where
  "js_String JUndefined = ''undefined''"
| "js_String JNull = ''null''"
| "js_String (JBool b) = (if b then ''true'' else ''false'')"
| "js_String (JNum n) = (if n < 0 then CHR ''-'' # showNat (nat (- n)) else showNat (nat n))"
| "js_String (JStr s) = s"
| "js_String (JArr xs) =
     joinWith '','' (map (\<lambda>x. if x = JUndefined \<or> x = JNull then [] else js_String x) xs)"
| "js_String (JObj kvs) = ''[object Object]''"

text \<open>
  Property reads. \<^verbatim>\<open>lookupKey\<close> reads a key of a record of arguments or of an
  object's own properties (undefined when the key is absent); \<^verbatim>\<open>getProp\<close> is
  \<^verbatim>\<open>v[k]\<close> on any value that is not undefined or null: an array answers its
  indices and \<^verbatim>\<open>length\<close>, a primitive answers undefined. \<^verbatim>\<open>hasProp\<close> is \<^verbatim>\<open>k in v\<close>
  on an object or array.
\<close>

definition lookupKey :: "(string \<times> jsval) list \<Rightarrow> string \<Rightarrow> jsval" where
  "lookupKey kvs k = (case map_of kvs k of Some v \<Rightarrow> v | None \<Rightarrow> JUndefined)"

fun getProp :: "jsval \<Rightarrow> string \<Rightarrow> jsval" where
  "getProp (JObj kvs) k = lookupKey kvs k"
| "getProp (JArr xs) k =
     (if k = ''length'' then JNum (int (length xs))
      else (case find (\<lambda>i. showNat i = k) [0..<length xs] of
              Some i \<Rightarrow> xs ! i
            | None \<Rightarrow> JUndefined))"
| "getProp v k = JUndefined"

fun hasProp :: "jsval \<Rightarrow> string \<Rightarrow> bool" where
  "hasProp (JObj kvs) k = (k \<in> set (map fst kvs))"
| "hasProp (JArr xs) k = (k = ''length'' \<or> find (\<lambda>i. showNat i = k) [0..<length xs] \<noteq> None)"
| "hasProp v k = False"

text \<open>
  Assignment \<^verbatim>\<open>obj[k] = v\<close> on a record: an existing key keeps its place, a new
  key goes last.
\<close>

fun assign :: "'k \<Rightarrow> 'v \<Rightarrow> ('k \<times> 'v) list \<Rightarrow> ('k \<times> 'v) list" where
  "assign k v [] = [(k, v)]"
| "assign k v ((k', v') # rest) = (if k = k' then (k, v) # rest else (k', v') # assign k v rest)"

text \<open>\<^verbatim>\<open>s.replace(pattern, text)\<close> with a string pattern: the first occurrence only.\<close>

fun replaceFirst :: "string \<Rightarrow> string \<Rightarrow> string \<Rightarrow> string" where
  "replaceFirst [] pat rep = (if pat = [] then rep else [])"
| "replaceFirst (c # cs) pat rep =
     (if startsWith (c # cs) pat then rep @ drop (length pat) (c # cs)
      else c # replaceFirst cs pat rep)"

text \<open>\<^verbatim>\<open>s.split(sep)\<close> on a separator of one character.\<close>

fun splitOn :: "char \<Rightarrow> string \<Rightarrow> string list" where
  "splitOn sep [] = [[]]"
| "splitOn sep (c # cs) =
     (case splitOn sep cs of
        [] \<Rightarrow> (if c = sep then [[], []] else [[c]])
      | p # ps \<Rightarrow> (if c = sep then [] # p # ps else (c # p) # ps))"

text \<open>An exception is modelled by its message.\<close>

datatype exn = JsError string

fun message :: "exn \<Rightarrow> string" where
  "message (JsError m) = m"

section \<open>Auth resolver\<close>

text \<open>
  \<^verbatim>\<open>AuthConfig\<close> of \<^verbatim>\<open>types.ts\<close>: per API name, a record with a type and the
  optional fields \<^verbatim>\<open>token\<close>, \<^verbatim>\<open>username\<close>, \<^verbatim>\<open>password\<close>, \<^verbatim>\<open>headerName\<close>. An
  absent field is \<open>None\<close>. The configuration object is modelled by its own
  properties (a map from API names); members inherited from the object prototype
  are not part of the model.
\<close>

datatype auth_kind = Bearer | ApiKey | Basic

datatype config_key = KToken | KUsername | KPassword

record auth_record =
  auth_type :: auth_kind
  token :: "string option"
  username :: "string option"
  password :: "string option"
  headerName :: "string option"

type_synonym auth_config = "string \<rightharpoonup> auth_record"

text \<open>
  The classification of one variable name, \<^verbatim>\<open>loadAuthConfig\<close> lines 1146 to 1176:
  the five patterns are tried in the order of the \<^verbatim>\<open>if\<close> chain. The result is the
  API name (the captured prefix, lower-cased), the auth type and the field the value
  is stored in.
\<close>

definition classify :: "string \<Rightarrow> (string \<times> auth_kind \<times> config_key) option" where
  "classify key =
     (let basic =
        (case matchSuffix ''_USERNAME'' key of
           Some p \<Rightarrow> Some (toLowerCase p, Basic, KUsername)
         | None \<Rightarrow>
            (case matchSuffix ''_PASSWORD'' key of
               Some p \<Rightarrow> Some (toLowerCase p, Basic, KPassword)
             | None \<Rightarrow> None))
      in case matchSuffix ''_API_KEY'' key of
           Some p \<Rightarrow> Some (toLowerCase p, ApiKey, KToken)
         | None \<Rightarrow>
            (case matchSuffix ''_BEARER_TOKEN'' key of
               Some p \<Rightarrow> Some (toLowerCase p, Bearer, KToken)
             | None \<Rightarrow>
                (case matchSuffix ''_TOKEN'' key of
                   Some p \<Rightarrow>
                     if \<not> includes_str key ''BEARER''
                     then Some (toLowerCase p, Bearer, KToken) else basic
                 | None \<Rightarrow> basic)))"

fun setConfigKey :: "config_key \<Rightarrow> string \<Rightarrow> auth_record \<Rightarrow> auth_record" where
  "setConfigKey KToken v r = r\<lparr>token := Some v\<rparr>"
| "setConfigKey KUsername v r = r\<lparr>username := Some v\<rparr>"
| "setConfigKey KPassword v r = r\<lparr>password := Some v\<rparr>"

text \<open>
  What one classified variable does to the record of its API (lines 1179 to 1193):
  create the record if there is none, promote the type to bearer, store the value,
  default the header name of an API key.
\<close>

definition updateRecord ::
  "auth_kind \<Rightarrow> config_key \<Rightarrow> string \<Rightarrow> auth_record option \<Rightarrow> auth_record" where
  "updateRecord authType configKey v old =
     (let r0 = (case old of
                  None \<Rightarrow> \<lparr>auth_type = authType, token = None, username = None,
                            password = None, headerName = None\<rparr>
                | Some r \<Rightarrow> r);
          r1 = (if authType = Bearer \<and> auth_type r0 \<noteq> Bearer
                then r0\<lparr>auth_type := authType\<rparr> else r0);
          r2 = setConfigKey configKey v r1
      in if authType = ApiKey \<and> (headerName r2 = None \<or> headerName r2 = Some [])
         then r2\<lparr>headerName := Some ''X-API-Key''\<rparr> else r2)"

text \<open>
  One turn of the loop over \<^verbatim>\<open>Object.entries(process.env)\<close>. A value that is
  undefined (\<open>None\<close>) or empty is skipped by the first statement of the body;
  \<open>hasValue\<close> says that an entry is not skipped there.
\<close>

definition hasValue :: "string \<times> string option \<Rightarrow> bool" where
  "hasValue kv = (snd kv \<noteq> None \<and> snd kv \<noteq> Some [])"

definition authStep :: "string \<times> string option \<Rightarrow> auth_config \<Rightarrow> auth_config" where
  "authStep kv cfg =
     (case snd kv of
        None \<Rightarrow> cfg
      | Some v \<Rightarrow>
          if v = [] then cfg
          else (case classify (fst kv) of
                  None \<Rightarrow> cfg
                | Some (apiName, authType, configKey) \<Rightarrow>
                    if apiName = [] then cfg
                    else cfg(apiName \<mapsto> updateRecord authType configKey v (cfg apiName))))"

text \<open>
  \<^verbatim>\<open>loadAuthConfig\<close>: the environment is the list of the entries of
  \<^verbatim>\<open>process.env\<close> in the order the loop scans them, after the configuration file has
  been read into it. Every run starts from the empty configuration.
\<close>

definition loadAuthConfig :: "(string \<times> string option) list \<Rightarrow> auth_config" where
  "loadAuthConfig env = fold authStep env Map.empty"

text \<open>
  The placeholders of \<^verbatim>\<open>ensureEnvKeysForSpecs\<close>: for every API name that is not
  empty, the keys \<^verbatim>\<open>NAME_SERVER_URL\<close> and \<^verbatim>\<open>NAME_BEARER_TOKEN\<close> that the file does not
  hold yet, each written as the line \<^verbatim>\<open>KEY=value\<close> with the value of
  \<^verbatim>\<open>getEnvPlaceholderValue\<close>. Reading such a line back gives the variable the
  value after the equals sign.
\<close>

definition getEnvPlaceholderValue :: "string \<Rightarrow> string" where
  "getEnvPlaceholderValue key =
     (if endsWith key ''_SERVER_URL'' then []
      else if endsWith key ''_BEARER_TOKEN'' then []
      else [])"

fun missingKeys :: "string list \<Rightarrow> string list \<Rightarrow> string list" where
  "missingKeys existingKeys [] = []"
| "missingKeys existingKeys (apiName # rest) =
     (if apiName = [] then missingKeys existingKeys rest
      else (let envPrefix = toUpperCase apiName;
                serverKey = envPrefix @ ''_SERVER_URL'';
                bearerKey = envPrefix @ ''_BEARER_TOKEN''
            in (if serverKey \<in> set existingKeys then [] else [serverKey])
               @ (if bearerKey \<in> set existingKeys then [] else [bearerKey])
               @ missingKeys existingKeys rest))"

definition placeholderEntries :: "string list \<Rightarrow> string list \<Rightarrow> (string \<times> string option) list" where
  "placeholderEntries existingKeys apiNames =
     map (\<lambda>key. (key, Some (getEnvPlaceholderValue key))) (missingKeys existingKeys apiNames)"

text \<open>
  A variable takes part in the record of an API name when it is not skipped and its
  name classifies to that API name.
\<close>

definition classifiesTo :: "string \<Rightarrow> string \<times> string option \<Rightarrow> bool" where
  "classifiesTo name kv =
     (hasValue kv \<and> (case classify (fst kv) of Some (n, t, k) \<Rightarrow> n = name | None \<Rightarrow> False))"

section \<open>Tool definitions\<close>

text \<open>
  \<^verbatim>\<open>ToolParameter\<close> and \<^verbatim>\<open>GeneratedTool\<close> of \<^verbatim>\<open>types.ts\<close>. The compiler copies the
  name, the location and the schema of a parameter out of the document as they
  are, so these fields are values; a field the document leaves out is undefined.
\<close>

record ToolParameter =
  param_name :: jsval
  param_in :: jsval
  param_required :: jsval
  param_schema :: jsval
  param_description :: jsval

record GeneratedTool =
  tool_name :: string
  tool_description :: jsval
  tool_operationId :: jsval
  tool_method :: string
  tool_path :: string
  tool_parameters :: "ToolParameter list"
  tool_requestBody :: jsval
  tool_responses :: jsval
  tool_security :: jsval
  tool_baseUrl :: string

record ToolExecutionContext =
  ctx_apiName :: string
  ctx_tool :: GeneratedTool
  ctx_authConfig :: "auth_record option"

datatype status = StatusCode int | StatusText string

record ApiCallResult =
  requestUrl :: string
  requestBody :: jsval
  response_status :: status
  response_body :: jsval

record RequestConfig =
  req_method :: string
  req_url :: string
  req_headers :: "(string \<times> string) list"
  req_timeout :: nat
  req_params :: "(string \<times> jsval) list option"
  req_data :: "jsval option"

section \<open>Request builder and executor\<close>

text \<open>
  What the program takes from the platform rather than from this repository:
  \<^verbatim>\<open>encodeURIComponent\<close>, which throws on text it cannot encode; base64 encoding;
  \<^verbatim>\<open>JSON.stringify\<close>; and the \<^verbatim>\<open>URL\<close> class, by the three uses made of it:
  parse a URL, append the query pairs and print it (\<open>None\<close> when any of it
  throws); the path name of a parsed URL (\<open>None\<close> when the text is not a URL);
  and the text of a URL after its path name has been replaced.
\<close>

record platform =
  encodeURIComponent :: "string \<Rightarrow> exn + string"
  base64 :: "string \<Rightarrow> string"
  jsonStringify :: "jsval \<Rightarrow> string"
  appendSearchParams :: "string \<Rightarrow> (string \<times> string) list \<Rightarrow> string option"
  urlPathname :: "string \<Rightarrow> string option"
  urlWithPathname :: "string \<Rightarrow> string \<Rightarrow> string"

text \<open>
  The outcome of the transport call \<^verbatim>\<open>axios(requestConfig)\<close>: a response (status and
  data); a rejection with an Axios error, which carries the response when the
  remote answered with an error status and none when no response arrived; or any
  other exception.
\<close>

datatype transport_outcome =
    Responded int jsval
  | AxiosFailed "(int \<times> jsval) option"
  | OtherFailure exn

text \<open>\<^verbatim>\<open>args[param.name]\<close>: the key of the read is the name as a string.\<close>

definition getArg :: "(string \<times> jsval) list \<Rightarrow> jsval \<Rightarrow> jsval" where
  "getArg args nm = lookupKey args (js_String nm)"

text \<open>\<^verbatim>\<open>tool.baseUrl.replace(/\/$/, "")\<close>: one trailing slash is dropped.\<close>

definition stripTrailingSlash :: "string \<Rightarrow> string" where
  "stripTrailingSlash s = (if endsWith s ''/'' then butlast s else s)"

text \<open>
  The loop of \<^verbatim>\<open>buildUrl\<close>, lines 848 to 855: for each path parameter with an
  argument, the first occurrence of its placeholder is replaced by the encoded
  argument. The encoder of the platform escapes \<^verbatim>\<open>$\<close>, so the replacement text is
  inserted as it is.
\<close>

fun substitutePath ::
  "platform \<Rightarrow> ToolParameter list \<Rightarrow> (string \<times> jsval) list \<Rightarrow> string \<Rightarrow> exn + string" where
  "substitutePath pf [] args url = Inr url"
| "substitutePath pf (p # ps) args url =
     (if param_in p = JStr ''path'' \<and> getArg args (param_name p) \<noteq> JUndefined
      then (case encodeURIComponent pf (js_String (getArg args (param_name p))) of
              Inl e \<Rightarrow> Inl e
            | Inr enc \<Rightarrow>
                substitutePath pf ps args
                  (replaceFirst url (''{'' @ js_String (param_name p) @ ''}'') enc))
      else substitutePath pf ps args url)"

definition buildUrl :: "platform \<Rightarrow> GeneratedTool \<Rightarrow> (string \<times> jsval) list \<Rightarrow> exn + string" where
  "buildUrl pf tool args =
     substitutePath pf (tool_parameters tool) args
       (stripTrailingSlash (tool_baseUrl tool) @ tool_path tool)"

definition nonEmpty :: "string option \<Rightarrow> bool" where
  "nonEmpty s = (s \<noteq> None \<and> s \<noteq> Some [])"

definition applyAuthentication ::
  "platform \<Rightarrow> (string \<times> string) list \<Rightarrow> auth_record option \<Rightarrow> (string \<times> string) list" where
  "applyAuthentication pf headers authConfig =
     (case authConfig of
        None \<Rightarrow> headers
      | Some a \<Rightarrow>
          (case auth_type a of
             Bearer \<Rightarrow>
               if nonEmpty (token a)
               then assign ''Authorization'' (''Bearer '' @ the (token a)) headers
               else headers
           | ApiKey \<Rightarrow>
               if nonEmpty (token a) \<and> nonEmpty (headerName a)
               then assign (the (headerName a)) (the (token a)) headers
               else headers
           | Basic \<Rightarrow>
               if nonEmpty (username a) \<and> nonEmpty (password a)
               then assign ''Authorization''
                      (''Basic '' @ base64 pf (the (username a) @ '':'' @ the (password a))) headers
               else headers))"

fun addHeaderParameters ::
  "ToolParameter list \<Rightarrow> (string \<times> jsval) list \<Rightarrow> (string \<times> string) list
     \<Rightarrow> (string \<times> string) list" where
  "addHeaderParameters [] args headers = headers"
| "addHeaderParameters (p # ps) args headers =
     (if param_in p = JStr ''header'' \<and> getArg args (param_name p) \<noteq> JUndefined
      then addHeaderParameters ps args
             (assign (js_String (param_name p)) (js_String (getArg args (param_name p))) headers)
      else addHeaderParameters ps args headers)"

fun collectQuery ::
  "ToolParameter list \<Rightarrow> (string \<times> jsval) list \<Rightarrow> (string \<times> jsval) list
     \<Rightarrow> (string \<times> jsval) list" where
  "collectQuery [] args params = params"
| "collectQuery (p # ps) args params =
     (if param_in p = JStr ''query'' \<and> getArg args (param_name p) \<noteq> JUndefined
      then collectQuery ps args (assign (js_String (param_name p)) (getArg args (param_name p)) params)
      else collectQuery ps args params)"

definition buildQueryParameters ::
  "GeneratedTool \<Rightarrow> (string \<times> jsval) list \<Rightarrow> (string \<times> jsval) list" where
  "buildQueryParameters tool args = collectQuery (tool_parameters tool) args []"

text \<open>
  \<^verbatim>\<open>buildRequestBody\<close>, lines 887 to 928. The result \<open>JNull\<close> is the \<^verbatim>\<open>null\<close> the
  source returns for no body. The loop over \<^verbatim>\<open>Object.entries(args)\<close> keeps the
  entries whose key is not the name of a declared parameter, in order.
\<close>

definition leftoverArgs :: "GeneratedTool \<Rightarrow> (string \<times> jsval) list \<Rightarrow> (string \<times> jsval) list" where
  "leftoverArgs tool args =
     filter (\<lambda>kv. JStr (fst kv) \<notin> set (map param_name (tool_parameters tool))) args"

definition buildRequestBody :: "GeneratedTool \<Rightarrow> (string \<times> jsval) list \<Rightarrow> jsval" where
  "buildRequestBody tool args =
     (if \<not> truthy (tool_requestBody tool) then
        (case find (\<lambda>p. param_in p = JStr ''body'') (tool_parameters tool) of
           None \<Rightarrow> JNull
         | Some bodyParam \<Rightarrow>
             if getArg args (param_name bodyParam) \<noteq> JUndefined
             then getArg args (param_name bodyParam)
             else if lookupKey args ''body'' \<noteq> JUndefined then lookupKey args ''body''
             else JNull)
      else if lookupKey args ''body'' \<noteq> JUndefined then lookupKey args ''body''
      else if lookupKey args ''requestBody'' \<noteq> JUndefined then lookupKey args ''requestBody''
      else (let bodyArgs = leftoverArgs tool args
            in if bodyArgs \<noteq> [] then JObj bodyArgs else JNull))"

text \<open>
  \<^verbatim>\<open>buildRequestConfig\<close>, lines 796 to 842. Only \<^verbatim>\<open>buildUrl\<close> can throw. The
  content type is defaulted when there is a body and the header is absent or empty.
\<close>

definition buildRequestConfig ::
  "platform \<Rightarrow> ToolExecutionContext \<Rightarrow> (string \<times> jsval) list \<Rightarrow> exn + RequestConfig" where
  "buildRequestConfig pf ctx args =
     (let tool = ctx_tool ctx in
      case buildUrl pf tool args of
        Inl e \<Rightarrow> Inl e
      | Inr url \<Rightarrow>
          (let headers0 = [(''User-Agent'', ''specrun/1.0.0''), (''Accept'', ''application/json'')];
               headers1 = applyAuthentication pf headers0 (ctx_authConfig ctx);
               headers2 = addHeaderParameters (tool_parameters tool) args headers1;
               params = buildQueryParameters tool args;
               data = buildRequestBody tool args;
               headers3 = (if data \<noteq> JNull \<and> \<not> nonEmpty (map_of headers2 ''Content-Type'')
                           then assign ''Content-Type'' ''application/json'' headers2
                           else headers2)
           in Inr \<lparr>req_method = toLowerCase (tool_method tool),
                    req_url = url,
                    req_headers = headers3,
                    req_timeout = 30000,
                    req_params = (if params \<noteq> [] then Some params else None),
                    req_data = (if data \<noteq> JNull then Some data else None)\<rparr>))"

text \<open>
  \<^verbatim>\<open>buildRequestUrl\<close>, lines 1006 to 1039: the query pairs that are appended, and
  the fall back to the unmodified URL when the reconstruction throws.
\<close>

fun queryPairs :: "platform \<Rightarrow> (string \<times> jsval) list \<Rightarrow> (string \<times> string) list" where
  "queryPairs pf [] = []"
| "queryPairs pf ((k, v) # rest) =
     (case v of
        JUndefined \<Rightarrow> []
      | JNull \<Rightarrow> []
      | JArr xs \<Rightarrow> map (\<lambda>x. (k, js_String x)) xs
      | JObj kvs \<Rightarrow> [(k, jsonStringify pf v)]
      | _ \<Rightarrow> [(k, js_String v)]) @ queryPairs pf rest"

definition buildRequestUrl :: "platform \<Rightarrow> RequestConfig \<Rightarrow> string" where
  "buildRequestUrl pf config =
     (let baseUrl = req_url config;
          params = (case req_params config of Some ps \<Rightarrow> ps | None \<Rightarrow> [])
      in if baseUrl = [] \<or> params = [] then baseUrl
         else (case appendSearchParams pf baseUrl (queryPairs pf params) of
                 Some u \<Rightarrow> u
               | None \<Rightarrow> baseUrl))"

definition dataOrNull :: "RequestConfig \<Rightarrow> jsval" where
  "dataOrNull config = (case req_data config of Some d \<Rightarrow> nullish_or d JNull | None \<Rightarrow> JNull)"

text \<open>
  \<^verbatim>\<open>executeRequest\<close>, lines 750 to 794. The result is a sum so that an exception
  leaving the function would be a value \<open>Inl\<close>. The \<^verbatim>\<open>try\<close> block is the build and
  the transport call; the handler tells an Axios error from any other exception.
  An exception of the build reaches the handler with \<^verbatim>\<open>requestConfig\<close> still null.
  The debug log has no part in the result: it serialises values that are finite
  trees, which does not throw, and its write to the file is inside a \<^verbatim>\<open>try\<close> of
  its own.
\<close>

definition errorBody :: "exn \<Rightarrow> jsval" where
  "errorBody e = JObj [(''error'', JStr (message e))]"

definition executeRequest ::
  "platform \<Rightarrow> (RequestConfig \<Rightarrow> transport_outcome) \<Rightarrow> ToolExecutionContext
     \<Rightarrow> (string \<times> jsval) list \<Rightarrow> exn + ApiCallResult" where
  "executeRequest pf transport ctx args =
     (case buildRequestConfig pf ctx args of
        Inl e \<Rightarrow>
          Inr \<lparr>requestUrl = [], requestBody = JNull,
               response_status = StatusText ''Error'', response_body = errorBody e\<rparr>
      | Inr requestConfig \<Rightarrow>
          (case transport requestConfig of
             Responded st d \<Rightarrow>
               Inr \<lparr>requestUrl = buildRequestUrl pf requestConfig,
                    requestBody = dataOrNull requestConfig,
                    response_status = StatusCode st,
                    response_body = nullish_or d JNull\<rparr>
           | AxiosFailed resp \<Rightarrow>
               Inr \<lparr>requestUrl = buildRequestUrl pf requestConfig,
                    requestBody = dataOrNull requestConfig,
                    response_status =
                      (case resp of Some (st, d) \<Rightarrow> StatusCode st | None \<Rightarrow> StatusText ''Unknown''),
                    response_body =
                      (case resp of Some (st, d) \<Rightarrow> nullish_or d JNull | None \<Rightarrow> JNull)\<rparr>
           | OtherFailure e \<Rightarrow>
               Inr \<lparr>requestUrl = buildRequestUrl pf requestConfig,
                    requestBody = dataOrNull requestConfig,
                    response_status = StatusText ''Error'',
                    response_body = errorBody e\<rparr>))"

text \<open>A success status code is one the transport resolves on: 200 to 299.\<close>

definition isSuccessStatus :: "status \<Rightarrow> bool" where
  "isSuccessStatus s = (case s of StatusCode n \<Rightarrow> 200 \<le> n \<and> n < 300 | StatusText t \<Rightarrow> False)"

text \<open>
  The transport rejects with a response exactly when the status fails its
  \<^verbatim>\<open>validateStatus\<close> check, which the request configuration leaves at its default.
\<close>

definition rejectsOnErrorStatus :: "transport_outcome \<Rightarrow> bool" where
  "rejectsOnErrorStatus out =
     (case out of
        AxiosFailed (Some (st, d)) \<Rightarrow> \<not> isSuccessStatus (StatusCode st)
      | _ \<Rightarrow> True)"

definition transportFailed :: "transport_outcome \<Rightarrow> bool" where
  "transportFailed out = (case out of Responded st d \<Rightarrow> False | _ \<Rightarrow> True)"

text \<open>The body the remote returned with a failed call, if it returned one.\<close>

definition remoteBody :: "transport_outcome \<Rightarrow> jsval option" where
  "remoteBody out =
     (case out of
        AxiosFailed (Some (st, d)) \<Rightarrow> (if d = JUndefined \<or> d = JNull then None else Some d)
      | _ \<Rightarrow> None)"

section \<open>Tool compiler\<close>




text \<open>
  \<^verbatim>\<open>resolveJsonPointer\<close>, lines 218 to 237: the reference must start with
  \<^verbatim>\<open>#/\<close>; its parts are unescaped (\<^verbatim>\<open>~1\<close> first, then \<^verbatim>\<open>~0\<close>) and walked from the
  root. Null stands for an unresolved reference.
\<close>

fun unescapeSlash :: "string \<Rightarrow> string" where
  "unescapeSlash (a # b # cs) =
     (if a = CHR ''~'' \<and> b = CHR ''1'' then CHR ''/'' # unescapeSlash cs
      else a # unescapeSlash (b # cs))"
| "unescapeSlash cs = cs"

fun unescapeTilde :: "string \<Rightarrow> string" where
  "unescapeTilde (a # b # cs) =
     (if a = CHR ''~'' \<and> b = CHR ''0'' then CHR ''~'' # unescapeTilde cs
      else a # unescapeTilde (b # cs))"
| "unescapeTilde cs = cs"

fun walkPointer :: "jsval \<Rightarrow> string list \<Rightarrow> jsval" where
  "walkPointer current [] = current"
| "walkPointer current (part # rest) =
     (if \<not> truthy current \<or> \<not> typeofObject current \<or> \<not> hasProp current part then JNull
      else walkPointer (getProp current part) rest)"

definition resolveJsonPointer :: "jsval \<Rightarrow> string \<Rightarrow> jsval" where
  "resolveJsonPointer root ref =
     (if \<not> startsWith ref ''#/'' then JNull
      else walkPointer root
             (map (\<lambda>part. unescapeTilde (unescapeSlash part)) (splitOn CHR ''/'' (drop 2 ref))))"

text \<open>\<^verbatim>\<open>resolveParameterRef\<close>, lines 201 to 216.\<close>

definition resolveParameterRef :: "jsval \<Rightarrow> jsval \<Rightarrow> jsval" where
  "resolveParameterRef paramRef spec =
     (if \<not> truthy paramRef \<or> \<not> typeofObject paramRef then JNull
      else if \<not> hasProp paramRef ''$ref'' then paramRef
      else (let ref = js_String (js_or (getProp paramRef ''$ref'') (JStr []))
            in if ref = [] \<or> \<not> truthy spec then JNull
               else resolveJsonPointer spec ref))"

text \<open>\<^verbatim>\<open>Object.values\<close> and \<^verbatim>\<open>Object.entries\<close> of a value.\<close>

fun objectEntries :: "jsval \<Rightarrow> (string \<times> jsval) list" where
  "objectEntries (JObj kvs) = kvs"
| "objectEntries (JArr xs) = zip (map showNat [0..<length xs]) xs"
| "objectEntries (JStr s) = zip (map showNat [0..<length s]) (map (\<lambda>c. JStr [c]) s)"
| "objectEntries v = []"

definition objectValues :: "jsval \<Rightarrow> jsval list" where
  "objectValues v = map snd (objectEntries v)"

text \<open>\<^verbatim>\<open>getParameterSchema\<close>, lines 239 to 272. Null stands for no schema.\<close>

definition optionalField :: "jsval \<Rightarrow> string \<Rightarrow> bool \<Rightarrow> (string \<times> jsval) list" where
  "optionalField param k present = (if present then [(k, getProp param k)] else [])"

definition getParameterSchema :: "jsval \<Rightarrow> jsval" where
  "getParameterSchema param =
     (if truthy (getProp param ''schema'') \<and> typeofObject (getProp param ''schema'')
      then getProp param ''schema''
      else
        (let content = getProp param ''content'';
             preferred =
               (if truthy content \<and> typeofObject content
                then js_or (getProp content ''application/json'')
                       (case find (\<lambda>entry. truthy entry \<and> truthy (getProp entry ''schema''))
                               (objectValues content) of
                          Some entry \<Rightarrow> entry
                        | None \<Rightarrow> JUndefined)
                else JUndefined)
         in if truthy content \<and> typeofObject content \<and> truthy preferred
               \<and> truthy (getProp preferred ''schema'')
            then getProp preferred ''schema''
            else if truthy (getProp param ''type'')
            then JObj ([(''type'', getProp param ''type'')]
                       @ optionalField param ''format'' (truthy (getProp param ''format''))
                       @ optionalField param ''items'' (truthy (getProp param ''items''))
                       @ optionalField param ''enum'' (truthy (getProp param ''enum''))
                       @ optionalField param ''default'' (getProp param ''default'' \<noteq> JUndefined))
            else JNull))"

text \<open>
  \<^verbatim>\<open>extractParameters\<close>, lines 149 to 172. \<^verbatim>\<open>parameterOf\<close> is the body of its
  loop: what one entry of the parameter list contributes, \<open>None\<close> when the entry
  is skipped.
\<close>

definition parameterOf :: "jsval \<Rightarrow> jsval \<Rightarrow> ToolParameter option" where
  "parameterOf paramRef spec =
     (let param = resolveParameterRef paramRef spec in
      if \<not> truthy param then None
      else (let schema = getParameterSchema param in
            if truthy (getProp param ''in'') \<and> truthy (getProp param ''name'') \<and> truthy schema
            then Some \<lparr>param_name = getProp param ''name'',
                       param_in = getProp param ''in'',
                       param_required =
                         js_or (getProp param ''required'')
                               (JBool (getProp param ''in'' = JStr ''path'')),
                       param_schema = schema,
                       param_description = getProp param ''description''\<rparr>
            else None))"

fun extractParameters :: "jsval list \<Rightarrow> jsval \<Rightarrow> ToolParameter list" where
  "extractParameters [] spec = []"
| "extractParameters (paramRef # rest) spec =
     (case parameterOf paramRef spec of
        None \<Rightarrow> extractParameters rest spec
      | Some p \<Rightarrow> p # extractParameters rest spec)"

text \<open>The \<^verbatim>\<open>required\<close> flag the source fragment of a parameter declares.\<close>

definition declaredRequired :: "jsval \<Rightarrow> jsval \<Rightarrow> jsval" where
  "declaredRequired paramRef spec = getProp (resolveParameterRef paramRef spec) ''required''"

section \<open>Schema synthesizer\<close>

text \<open>
  The validators the synthesizer builds, as the terms of the validation library
  it calls: the primitive validators, arrays, objects with a policy for keys the
  shape does not list (strip them, refuse them, let them through, or validate
  them with a catch-all), \<^verbatim>\<open>optional()\<close> and \<^verbatim>\<open>describe()\<close>.
\<close>

datatype zod =
    ZAny
  | ZString
  | ZNumber
  | ZInt
  | ZBoolean
  | ZArray zod
  | ZObject "(string \<times> zod) list" unknown_keys
  | ZOptional zod
  | ZDescribe zod jsval
and unknown_keys = Strip | Strict | Loose | Catchall zod

text \<open>
  \<^verbatim>\<open>new Set(v)\<close> iterates its argument: an array gives its elements, a string its
  characters, and any other value is not iterable, which throws a \<^verbatim>\<open>TypeError\<close>;
  \<open>notIterable\<close> stands for it, with a message in place of the engine's.
\<close>

definition notIterable :: "jsval \<Rightarrow> exn" where
  "notIterable v = JsError (js_String v @ '' is not iterable'')"

definition iterate :: "jsval \<Rightarrow> exn + jsval list" where
  "iterate v =
     (case v of
        JArr xs \<Rightarrow> Inr xs
      | JStr s \<Rightarrow> Inr (map (\<lambda>c. JStr [c]) s)
      | _ \<Rightarrow> Inl (notIterable v))"

text \<open>A loop that stops at the first exception.\<close>

fun traverse :: "('a \<Rightarrow> exn + 'b) \<Rightarrow> 'a list \<Rightarrow> exn + 'b list" where
  "traverse f [] = Inr []"
| "traverse f (x # xs) =
     (case f x of
        Inl e \<Rightarrow> Inl e
      | Inr y \<Rightarrow> (case traverse f xs of Inl e \<Rightarrow> Inl e | Inr ys \<Rightarrow> Inr (y # ys)))"

lemma traverse_cong [fundef_cong]:
  "xs = ys \<Longrightarrow> (\<And>x. x \<in> set ys \<Longrightarrow> f x = g x) \<Longrightarrow> traverse f xs = traverse g ys"
  by (induction ys arbitrary: xs) (auto split: sum.splits)

text \<open>
  The document reaches the compiler dereferenced: wherever the file has a reference
  object \<^verbatim>\<open>{$ref: pointer}\<close>, the parser has put the object the pointer names, so
  that a schema that refers to itself is an object that contains itself, and no
  reference object is left. Such a document is not a finite tree. It is kept here
  as the tree of the file, in which a reference object stands for the object it
  names, together with the table of the named objects. \<^verbatim>\<open>deref\<close> gives the value
  that stands at a place of the dereferenced document, and a read of a property or
  of the entries of an object of the document goes through it. A reference object
  whose pointer is not in the table is an object like any other.
\<close>

type_synonym objects = "string \<rightharpoonup> jsval"

definition deref :: "objects \<Rightarrow> jsval \<Rightarrow> jsval" where
  "deref shared v =
     (case getProp v ''$ref'' of
        JStr pointer \<Rightarrow> (case shared pointer of Some target \<Rightarrow> target | None \<Rightarrow> v)
      | _ \<Rightarrow> v)"

definition readProp :: "objects \<Rightarrow> jsval \<Rightarrow> string \<Rightarrow> jsval" where
  "readProp shared v k = deref shared (getProp v k)"

definition readEntries :: "objects \<Rightarrow> jsval \<Rightarrow> (string \<times> jsval) list" where
  "readEntries shared v = map (\<lambda>kv. (fst kv, deref shared (snd kv))) (objectEntries v)"

text \<open>
  The recursion of the synthesizer is bounded by nothing but the call stack of the
  engine. \<open>depth\<close> is the number of nested calls of the synthesizer the stack has
  room for; the call it has no room for throws the \<^verbatim>\<open>RangeError\<close> of the engine,
  which nothing in the synthesizer catches.
\<close>

definition rangeError :: exn where
  "rangeError = JsError ''Maximum call stack size exceeded''"

text \<open>\<^verbatim>\<open>openAPISchemaToZod\<close>, lines 307 to 356 of the tool registrar.\<close>

fun openAPISchemaToZod :: "objects \<Rightarrow> nat \<Rightarrow> jsval \<Rightarrow> exn + zod" where
  "openAPISchemaToZod shared 0 schema = Inl rangeError"
| "openAPISchemaToZod shared (Suc depth) schema =
     (if \<not> truthy schema \<or> \<not> typeofObject schema then Inr ZAny
      else if readProp shared schema ''type'' = JStr ''string'' then Inr ZString
      else if readProp shared schema ''type'' = JStr ''number'' then Inr ZNumber
      else if readProp shared schema ''type'' = JStr ''integer'' then Inr ZInt
      else if readProp shared schema ''type'' = JStr ''boolean'' then Inr ZBoolean
      else if readProp shared schema ''type'' = JStr ''array'' then
        (case openAPISchemaToZod shared depth (js_or (readProp shared schema ''items'') (JObj [])) of
           Inl e \<Rightarrow> Inl e
         | Inr item \<Rightarrow> Inr (ZArray item))
      else if readProp shared schema ''type'' = JStr ''object'' then
        (case iterate (js_or (readProp shared schema ''required'') (JArr [])) of
           Inl e \<Rightarrow> Inl e
         | Inr required \<Rightarrow>
             (case traverse
                     (\<lambda>kv. case openAPISchemaToZod shared depth (snd kv) of
                             Inl e \<Rightarrow> Inl e
                           | Inr propertySchema \<Rightarrow>
                               Inr (fst kv, if JStr (fst kv) \<in> set required then propertySchema
                                            else ZOptional propertySchema))
                     (readEntries shared (js_or (readProp shared schema ''properties'') (JObj []))) of
                Inl e \<Rightarrow> Inl e
              | Inr shape \<Rightarrow>
                  if readProp shared schema ''additionalProperties'' = JBool False
                  then Inr (ZObject shape Strict)
                  else if readProp shared schema ''additionalProperties'' = JBool True
                          \<or> readProp shared schema ''additionalProperties'' = JUndefined
                  then Inr (ZObject shape Loose)
                  else if typeofObject (readProp shared schema ''additionalProperties'')
                  then (case openAPISchemaToZod shared depth
                               (readProp shared schema ''additionalProperties'') of
                          Inl e \<Rightarrow> Inl e
                        | Inr extra \<Rightarrow> Inr (ZObject shape (Catchall extra)))
                  else Inr (ZObject shape Strip)))
      else Inr ZAny)"

declare openAPISchemaToZod.simps [simp del]

text \<open>
  \<^verbatim>\<open>buildZodSchema\<close>, lines 281 to 305: the validator of a whole tool. \<open>depth\<close> is
  the room of the stack where the synthesizer is called.
\<close>

fun schemaFieldsOf ::
  "objects \<Rightarrow> nat \<Rightarrow> ToolParameter list \<Rightarrow> (string \<times> zod) list
     \<Rightarrow> exn + (string \<times> zod) list" where
  "schemaFieldsOf shared depth [] schemaFields = Inr schemaFields"
| "schemaFieldsOf shared depth (param # rest) schemaFields =
     (case openAPISchemaToZod shared depth (deref shared (param_schema param)) of
        Inl e \<Rightarrow> Inl e
      | Inr fieldSchema \<Rightarrow>
          (let described = (if truthy (param_description param)
                            then ZDescribe fieldSchema (param_description param)
                            else fieldSchema);
               final = (if \<not> truthy (param_required param) then ZOptional described
                        else described)
           in schemaFieldsOf shared depth rest
                (assign (js_String (param_name param)) final schemaFields)))"

definition buildZodSchema :: "objects \<Rightarrow> nat \<Rightarrow> GeneratedTool \<Rightarrow> exn + zod" where
  "buildZodSchema shared depth tool =
     (case schemaFieldsOf shared depth (tool_parameters tool) [] of
        Inl e \<Rightarrow> Inl e
      | Inr schemaFields \<Rightarrow>
          if truthy (tool_requestBody tool)
          then Inr (ZObject
                      (assign ''body'' (ZDescribe (ZOptional ZAny) (JStr ''Request body data'')) schemaFields)
                      Loose)
          else Inr (ZObject schemaFields Strip))"

text \<open>The six types the \<^verbatim>\<open>switch\<close> knows.\<close>

definition recognizedType :: "jsval \<Rightarrow> bool" where
  "recognizedType t =
     (t = JStr ''string'' \<or> t = JStr ''number'' \<or> t = JStr ''integer'' \<or> t = JStr ''boolean''
      \<or> t = JStr ''array'' \<or> t = JStr ''object'')"

section \<open>Server state and hot reload\<close>

text \<open>
  Tool definitions are objects that the parsed specs and the registry both refer
  to, and the hot reload mutates them in place. So a tool definition lives in a
  store, and \<^verbatim>\<open>spec.tools\<close> and \<^verbatim>\<open>entry.tool\<close> hold references into it. The maps
  \<^verbatim>\<open>parsedSpecs\<close> and \<^verbatim>\<open>toolRegistry\<close> are lists of their entries in insertion
  order. The modification time of the configuration file is only compared for
  equality.
\<close>

type_synonym ref = nat

record ParsedSpec =
  spec_apiName :: string
  spec_filePath :: string
  spec_doc :: jsval
  spec_tools :: "ref list"

record ToolRegistryEntry =
  entry_spec :: ParsedSpec
  entry_tool :: ref
  entry_schema :: zod

record Confirmation =
  conf_toolName :: string
  conf_count :: nat
  conf_expiresAt :: int

record server_state =
  toolStore :: "ref \<Rightarrow> GeneratedTool"
  parsedSpecs :: "(string \<times> ParsedSpec) list"
  toolRegistry :: "(string \<times> ToolRegistryEntry) list"
  authConfig :: auth_config
  lastEnvMtimeMs :: "int option"
  largeBatchConfirmations :: "string \<rightharpoonup> Confirmation"

text \<open>
  What a refresh reads from outside: the modification time of the configuration
  file (\<open>None\<close> when it cannot be read) and the entries of \<^verbatim>\<open>process.env\<close> once the
  file has been loaded into it.
\<close>

record environment =
  env_mtime :: "int option"
  process_env :: "(string \<times> string option) list"

definition isWhitespace :: "char \<Rightarrow> bool" where
  "isWhitespace c = (c \<in> set [CHR 0x09, CHR 0x0A, CHR 0x0B, CHR 0x0C, CHR 0x0D, CHR 0x20])"

definition trim :: "string \<Rightarrow> string" where
  "trim s = rev (dropWhile isWhitespace (rev (dropWhile isWhitespace s)))"

text \<open>\<^verbatim>\<open>resolveServerUrl\<close>, \<^verbatim>\<open>openapi-parser.ts\<close> lines 383 to 395.\<close>

definition resolveServerUrl :: "string \<Rightarrow> (string \<times> string option) list \<Rightarrow> string option" where
  "resolveServerUrl apiName env =
     (case map_of env (toUpperCase apiName @ ''_SERVER_URL'') of
        Some (Some envValue) \<Rightarrow> (if trim envValue \<noteq> [] then Some (trim envValue) else None)
      | _ \<Rightarrow> None)"

text \<open>
  \<^verbatim>\<open>getOpenApiBasePath\<close>, \<^verbatim>\<open>appendOpenApiBasePath\<close> and \<^verbatim>\<open>resolveToolBaseUrl\<close> of
  the server, lines 594 to 647.
\<close>

definition getOpenApiBasePath :: "jsval \<Rightarrow> string option" where
  "getOpenApiBasePath doc =
     (let raw = (case getProp doc ''basePath'' of JStr b \<Rightarrow> b | _ \<Rightarrow> []);
          trimmed = trim raw
      in if trimmed = [] then None
         else if startsWith trimmed ''/'' then Some trimmed
         else Some (''/'' @ trimmed))"

definition hasPathOf :: "string \<Rightarrow> bool" where
  "hasPathOf pathname = (pathname \<noteq> [] \<and> pathname \<noteq> ''/'')"

definition appendOpenApiBasePath :: "platform \<Rightarrow> string \<Rightarrow> jsval \<Rightarrow> string" where
  "appendOpenApiBasePath pf baseUrl doc =
     (case getOpenApiBasePath doc of
        None \<Rightarrow> baseUrl
      | Some basePath \<Rightarrow>
          (case urlPathname pf baseUrl of
             None \<Rightarrow> baseUrl
           | Some pathname \<Rightarrow>
               if hasPathOf pathname then baseUrl
               else stripTrailingSlash (urlWithPathname pf baseUrl basePath)))"

definition resolveToolBaseUrl :: "platform \<Rightarrow> ParsedSpec \<Rightarrow> string \<Rightarrow> string" where
  "resolveToolBaseUrl pf spec newBaseUrl =
     (let swaggerSpec = spec_doc spec;
          otherwise = (if truthy swaggerSpec \<and> truthy (getProp swaggerSpec ''openapi'')
                       then appendOpenApiBasePath pf newBaseUrl swaggerSpec
                       else newBaseUrl)
      in if truthy swaggerSpec \<and> getProp swaggerSpec ''swagger'' = JStr ''2.0''
         then (case urlPathname pf newBaseUrl of
                 None \<Rightarrow> newBaseUrl
               | Some pathname \<Rightarrow>
                   (case getProp swaggerSpec ''basePath'' of
                      JStr b \<Rightarrow>
                        if \<not> hasPathOf pathname \<and> trim b \<noteq> []
                        then stripTrailingSlash (urlWithPathname pf newBaseUrl (trim b))
                        else otherwise
                    | _ \<Rightarrow> otherwise))
         else otherwise)"

text \<open>
  \<^verbatim>\<open>updateToolBaseUrlsFromEnv\<close>, lines 574 to 592. For a spec whose server URL is
  set, the two inner loops assign the resolved URL to the tools of the spec and
  then to the tool of every registry entry of the same API name; \<^verbatim>\<open>ownedRefs\<close>
  lists these references in the order of the assignments.
\<close>

definition setBaseUrl :: "string \<Rightarrow> ref \<Rightarrow> (ref \<Rightarrow> GeneratedTool) \<Rightarrow> (ref \<Rightarrow> GeneratedTool)" where
  "setBaseUrl url r store = store(r := (store r)\<lparr>tool_baseUrl := url\<rparr>)"

definition ownedRefs :: "(string \<times> ToolRegistryEntry) list \<Rightarrow> ParsedSpec \<Rightarrow> ref list" where
  "ownedRefs registry spec =
     spec_tools spec
     @ map entry_tool
         (filter (\<lambda>entry. spec_apiName (entry_spec entry) = spec_apiName spec) (map snd registry))"

definition updateSpecTools ::
  "platform \<Rightarrow> (string \<times> string option) list \<Rightarrow> (string \<times> ToolRegistryEntry) list
     \<Rightarrow> ParsedSpec \<Rightarrow> (ref \<Rightarrow> GeneratedTool) \<Rightarrow> (ref \<Rightarrow> GeneratedTool)" where
  "updateSpecTools pf env registry spec store =
     (case resolveServerUrl (spec_apiName spec) env of
        None \<Rightarrow> store
      | Some newBaseUrl \<Rightarrow>
          fold (setBaseUrl (resolveToolBaseUrl pf spec newBaseUrl)) (ownedRefs registry spec) store)"

definition updateToolBaseUrlsFromEnv ::
  "platform \<Rightarrow> (string \<times> string option) list \<Rightarrow> server_state \<Rightarrow> server_state" where
  "updateToolBaseUrlsFromEnv pf env s =
     s\<lparr>toolStore :=
         fold (updateSpecTools pf env (toolRegistry s)) (map snd (parsedSpecs s)) (toolStore s)\<rparr>"

text \<open>
  \<^verbatim>\<open>refreshEnvConfigIfChanged\<close>, lines 562 to 572. The rewrite of the spec files
  on disk (\<^verbatim>\<open>updateSpecServerUrls\<close>) touches no part of the state.
\<close>

definition refreshEnvConfigIfChanged ::
  "platform \<Rightarrow> environment \<Rightarrow> bool \<Rightarrow> server_state \<Rightarrow> server_state" where
  "refreshEnvConfigIfChanged pf w force s =
     (if \<not> force \<and> env_mtime w = lastEnvMtimeMs s then s
      else (updateToolBaseUrlsFromEnv pf (process_env w)
              (s\<lparr>authConfig := loadAuthConfig (process_env w)\<rparr>))
           \<lparr>lastEnvMtimeMs := env_mtime w\<rparr>)"

text \<open>The server URL of a parsed spec is set in the environment.\<close>

definition urlIsSet :: "(string \<times> string option) list \<Rightarrow> ParsedSpec \<Rightarrow> bool" where
  "urlIsSet env spec = (resolveServerUrl (spec_apiName spec) env \<noteq> None)"

section \<open>Batch dispatcher\<close>

text \<open>
  The confirmation table of the tool registrar and its two operations,
  \<^verbatim>\<open>issueLargeBatchToken\<close> (lines 243 to 251) and \<^verbatim>\<open>isLargeBatchConfirmed\<close> (lines
  253 to 279). The fresh UUID and the clock are read from outside; each operation
  returns its result with the table it leaves.
\<close>

definition largeBatchThreshold :: nat where
  "largeBatchThreshold = 200"

definition largeBatchTokenTtlMs :: int where
  "largeBatchTokenTtlMs = 5 * 60 * 1000"

definition issueLargeBatchToken ::
  "(string \<rightharpoonup> Confirmation) \<Rightarrow> string \<Rightarrow> int \<Rightarrow> string \<Rightarrow> nat
     \<Rightarrow> string \<times> (string \<rightharpoonup> Confirmation)" where
  "issueLargeBatchToken table uuid now toolName count =
     (uuid, table(uuid \<mapsto> \<lparr>conf_toolName = toolName, conf_count = count,
                               conf_expiresAt = now + largeBatchTokenTtlMs\<rparr>))"

definition isLargeBatchConfirmed ::
  "(string \<rightharpoonup> Confirmation) \<Rightarrow> int \<Rightarrow> bool \<Rightarrow> string \<Rightarrow> string \<Rightarrow> nat
     \<Rightarrow> bool \<times> (string \<rightharpoonup> Confirmation)" where
  "isLargeBatchConfirmed table now confirmLargeBatch confirmLargeBatchToken toolName count =
     (if \<not> confirmLargeBatch \<or> confirmLargeBatchToken = [] then (False, table)
      else (case table confirmLargeBatchToken of
              None \<Rightarrow> (False, table)
            | Some record \<Rightarrow>
                if conf_expiresAt record \<le> now
                then (False, table(confirmLargeBatchToken := None))
                else if conf_toolName record \<noteq> toolName \<or> conf_count record \<noteq> count
                then (False, table)
                else (True, table(confirmLargeBatchToken := None))))"

text \<open>\<^verbatim>\<open>normalizeToolName\<close>, lines 200 to 211.\<close>

definition normalizeToolName :: "string \<Rightarrow> string" where
  "normalizeToolName v =
     (let trimmed = trim v in
      if startsWith trimmed ''mcp_specrun_'' then drop (length ''mcp_specrun_'') trimmed
      else if startsWith trimmed ''specrun_'' then drop (length ''specrun_'') trimmed
      else trimmed)"

text \<open>
  What the handler reads from its arguments, lines 79 to 105: each field is
  coerced again, whatever the protocol adapter validated before.
\<close>

definition argRawToolName :: "(string \<times> jsval) list \<Rightarrow> string" where
  "argRawToolName args = js_String (js_or (lookupKey args ''toolName'') (JStr []))"

definition argItems :: "(string \<times> jsval) list \<Rightarrow> jsval list" where
  "argItems args = (case lookupKey args ''items'' of JArr xs \<Rightarrow> xs | _ \<Rightarrow> [])"

definition argFailFast :: "(string \<times> jsval) list \<Rightarrow> bool" where
  "argFailFast args = truthy (lookupKey args ''failFast'')"

definition argConfirm :: "(string \<times> jsval) list \<Rightarrow> bool" where
  "argConfirm args = truthy (lookupKey args ''confirmLargeBatch'')"

definition argToken :: "(string \<times> jsval) list \<Rightarrow> string" where
  "argToken args = (case lookupKey args ''confirmLargeBatchToken'' of JStr t \<Rightarrow> t | _ \<Rightarrow> [])"

text \<open>
  What one invocation of the batch tool meets outside the state: the configuration
  file and the environment, the clock at the token lookup and at the token issue,
  the fresh UUID, and the behaviour of the transport at the call for each item.
  The validation library's \<^verbatim>\<open>safeParse\<close> gives an error message or the parsed
  arguments.
\<close>

record invocation =
  inv_environment :: environment
  inv_lookup_time :: int
  inv_issue_time :: int
  inv_uuid :: string
  inv_transport :: "nat \<Rightarrow> RequestConfig \<Rightarrow> transport_outcome"

record runtime =
  rt_platform :: platform
  rt_safeParse :: "zod \<Rightarrow> jsval \<Rightarrow> string + (string \<times> jsval) list"

datatype item_outcome = ItemResult nat ApiCallResult | ItemError nat string

datatype batch_response =
    UnknownTool string string
  | ConfirmationRequired string nat string
  | BatchResults string nat "item_outcome list"

text \<open>
  The calls the handler makes for the items, which are its effects outside the
  state: the validator on the item at an index, and the executor on the parsed
  arguments of the item at an index.
\<close>

datatype call = Validate nat jsval | Execute nat "(string \<times> jsval) list"

text \<open>
  The loop over the items, lines 147 to 181, from a given index on: the outcomes
  it pushes and the calls it makes, both in order. An invocation is taken as one
  step: the registry entry, its tool and the auth record are those of the state
  the handler started in.
\<close>

fun runItemsTraced ::
  "runtime \<Rightarrow> (nat \<Rightarrow> RequestConfig \<Rightarrow> transport_outcome) \<Rightarrow> bool \<Rightarrow> zod
     \<Rightarrow> ToolExecutionContext \<Rightarrow> nat \<Rightarrow> jsval list \<Rightarrow> item_outcome list \<times> call list" where
  "runItemsTraced rt transport failFast schema ctx index [] = ([], [])"
| "runItemsTraced rt transport failFast schema ctx index (itemArgs # rest) =
     (let later = runItemsTraced rt transport failFast schema ctx (Suc index) rest
      in case rt_safeParse rt schema itemArgs of
           Inl msg \<Rightarrow>
             if failFast then ([ItemError index msg], [Validate index itemArgs])
             else (ItemError index msg # fst later, Validate index itemArgs # snd later)
         | Inr parsedData \<Rightarrow>
             (case executeRequest (rt_platform rt) (transport index) ctx parsedData of
                Inr output \<Rightarrow>
                  (ItemResult index output # fst later,
                   Validate index itemArgs # Execute index parsedData # snd later)
              | Inl e \<Rightarrow>
                  if failFast
                  then ([ItemError index (message e)],
                        [Validate index itemArgs, Execute index parsedData])
                  else (ItemError index (message e) # fst later,
                        Validate index itemArgs # Execute index parsedData # snd later)))"

definition runItems ::
  "runtime \<Rightarrow> (nat \<Rightarrow> RequestConfig \<Rightarrow> transport_outcome) \<Rightarrow> bool \<Rightarrow> zod
     \<Rightarrow> ToolExecutionContext \<Rightarrow> nat \<Rightarrow> jsval list \<Rightarrow> item_outcome list" where
  "runItems rt transport failFast schema ctx index items =
     fst (runItemsTraced rt transport failFast schema ctx index items)"

definition contextOfEntry :: "server_state \<Rightarrow> ToolRegistryEntry \<Rightarrow> ToolExecutionContext" where
  "contextOfEntry s entry =
     \<lparr>ctx_apiName = spec_apiName (entry_spec entry),
      ctx_tool = toolStore s (entry_tool entry),
      ctx_authConfig = authConfig s (spec_apiName (entry_spec entry))\<rparr>"

text \<open>
  The handler of \<^verbatim>\<open>specrun_batch\<close>, lines 77 to 196, as a function from the state
  to the response, the calls made for the items, and the state it leaves.
  Publishing the response as a resource belongs to the protocol adapter.
  \<^verbatim>\<open>runBatch\<close> and \<^verbatim>\<open>specrun_batch\<close> are the same without the calls.
\<close>

definition runBatchTraced ::
  "runtime \<Rightarrow> invocation \<Rightarrow> server_state \<Rightarrow> ToolRegistryEntry \<Rightarrow> (string \<times> jsval) list
     \<Rightarrow> item_outcome list \<times> call list" where
  "runBatchTraced rt w s entry args =
     runItemsTraced rt (inv_transport w) (argFailFast args) (entry_schema entry)
       (contextOfEntry s entry) 0 (argItems args)"

definition runBatch ::
  "runtime \<Rightarrow> invocation \<Rightarrow> server_state \<Rightarrow> ToolRegistryEntry \<Rightarrow> (string \<times> jsval) list
     \<Rightarrow> item_outcome list" where
  "runBatch rt w s entry args = fst (runBatchTraced rt w s entry args)"

definition specrun_batch_traced ::
  "runtime \<Rightarrow> invocation \<Rightarrow> server_state \<Rightarrow> (string \<times> jsval) list
     \<Rightarrow> batch_response \<times> call list \<times> server_state" where
  "specrun_batch_traced rt w s0 args =
     (let s = refreshEnvConfigIfChanged (rt_platform rt) (inv_environment w) False s0;
          rawToolName = argRawToolName args;
          toolName = normalizeToolName rawToolName
      in case map_of (toolRegistry s) toolName of
           None \<Rightarrow> (UnknownTool rawToolName toolName, [], s)
         | Some entry \<Rightarrow>
             (let count = length (argItems args)
              in if largeBatchThreshold < count
                 then (case isLargeBatchConfirmed (largeBatchConfirmations s) (inv_lookup_time w)
                              (argConfirm args) (argToken args) toolName count of
                         (True, table) \<Rightarrow>
                           (BatchResults toolName count (fst (runBatchTraced rt w s entry args)),
                            snd (runBatchTraced rt w s entry args),
                            s\<lparr>largeBatchConfirmations := table\<rparr>)
                       | (False, table) \<Rightarrow>
                           (case issueLargeBatchToken table (inv_uuid w) (inv_issue_time w)
                                   toolName count of
                              (tok, table') \<Rightarrow>
                                (ConfirmationRequired toolName count tok, [],
                                 s\<lparr>largeBatchConfirmations := table'\<rparr>)))
                 else (BatchResults toolName count (fst (runBatchTraced rt w s entry args)),
                       snd (runBatchTraced rt w s entry args), s)))"

definition specrun_batch ::
  "runtime \<Rightarrow> invocation \<Rightarrow> server_state \<Rightarrow> (string \<times> jsval) list
     \<Rightarrow> batch_response \<times> server_state" where
  "specrun_batch rt w s0 args =
     (case specrun_batch_traced rt w s0 args of (response, calls, s) \<Rightarrow> (response, s))"



definition executedIndices :: "call list \<Rightarrow> nat list" where
  "executedIndices calls =
     concat (map (\<lambda>c. case c of Validate i item \<Rightarrow> [] | Execute i parsedData \<Rightarrow> [i]) calls)"

text \<open>
  The items of a response that have a result of the executor, and those that have
  an outcome at all.
\<close>

fun isItemResult :: "item_outcome \<Rightarrow> bool" where
  "isItemResult (ItemResult i r) = True"
| "isItemResult (ItemError i m) = False"


definition processedItems :: "batch_response \<Rightarrow> nat" where
  "processedItems resp =
     (case resp of BatchResults n c results \<Rightarrow> length results | _ \<Rightarrow> 0)"


definition requestsBatch :: "(string \<times> jsval) list \<Rightarrow> string \<Rightarrow> nat \<Rightarrow> bool" where
  "requestsBatch args toolName count =
     (normalizeToolName (argRawToolName args) = toolName \<and> length (argItems args) = count)"

definition tokenAccepted :: "server_state \<Rightarrow> invocation \<Rightarrow> (string \<times> jsval) list \<Rightarrow> bool" where
  "tokenAccepted s w args =
     fst (isLargeBatchConfirmed (largeBatchConfirmations s) (inv_lookup_time w) (argConfirm args)
            (argToken args) (normalizeToolName (argRawToolName args)) (length (argItems args)))"

section \<open>Example inputs\<close>

text \<open>
  Concrete tools, contexts and platforms on which the theorems below are
  instantiated: the \<^verbatim>\<open>POST /cars\<close> operation of the end-to-end example with and
  without a declared request body, a tool with a body-location parameter, a tool
  with a path parameter, a platform whose encoder returns its input, and one whose
  encoder throws.
\<close>

definition identityPlatform :: platform where
  "identityPlatform =
     \<lparr>encodeURIComponent = (\<lambda>s. Inr s), base64 = (\<lambda>s. s),
      jsonStringify = js_String, appendSearchParams = (\<lambda>u ps. None),
      urlPathname = (\<lambda>u. Some []), urlWithPathname = (\<lambda>u p. u @ p)\<rparr>"

definition addCarTool :: GeneratedTool where
  "addCarTool =
     \<lparr>tool_name = ''cars_addCar'', tool_description = JStr ''POST /cars'',
      tool_operationId = JStr ''addCar'', tool_method = ''POST'', tool_path = ''/cars'',
      tool_parameters = [], tool_requestBody = JUndefined, tool_responses = JUndefined,
      tool_security = JArr [], tool_baseUrl = ''https://api-server.placeholder''\<rparr>"

definition addCarToolWithBody :: GeneratedTool where
  "addCarToolWithBody = addCarTool\<lparr>tool_requestBody := JObj [(''required'', JBool True)]\<rparr>"

definition searchCarsTool :: GeneratedTool where
  "searchCarsTool =
     addCarToolWithBody\<lparr>tool_parameters :=
       [\<lparr>param_name = JStr ''limit'', param_in = JStr ''query'', param_required = JBool False,
         param_schema = JObj [(''type'', JStr ''integer'')], param_description = JUndefined\<rparr>]\<rparr>"

definition swaggerBodyTool :: GeneratedTool where
  "swaggerBodyTool =
     addCarTool\<lparr>tool_parameters :=
       [\<lparr>param_name = JStr ''car'', param_in = JStr ''body'', param_required = JBool True,
         param_schema = JObj [(''type'', JStr ''object'')], param_description = JUndefined\<rparr>]\<rparr>"

definition getCarTool :: GeneratedTool where
  "getCarTool =
     addCarTool\<lparr>tool_name := ''cars_getCarById'', tool_method := ''GET'', tool_path := ''/cars/{id}'',
       tool_parameters :=
       [\<lparr>param_name = JStr ''id'', param_in = JStr ''path'', param_required = JBool True,
         param_schema = JObj [(''type'', JStr ''string'')], param_description = JUndefined\<rparr>]\<rparr>"

definition failingPlatform :: platform where
  "failingPlatform = identityPlatform\<lparr>encodeURIComponent := (\<lambda>s. Inl (JsError ''URI malformed''))\<rparr>"

definition contextOf :: "GeneratedTool \<Rightarrow> ToolExecutionContext" where
  "contextOf tool = \<lparr>ctx_apiName = ''cars'', ctx_tool = tool, ctx_authConfig = None\<rparr>"

text \<open>
  Parameter fragments: a path parameter that declares \<^verbatim>\<open>required: false\<close>, a query
  parameter that declares nothing, and a reference into a document whose header
  parameter is required.
\<close>

definition idPathFragment :: jsval where
  "idPathFragment =
     JObj [(''name'', JStr ''id''), (''in'', JStr ''path''), (''required'', JBool False),
           (''schema'', JObj [(''type'', JStr ''string'')])]"

definition limitQueryFragment :: jsval where
  "limitQueryFragment =
     JObj [(''name'', JStr ''limit''), (''in'', JStr ''query''),
           (''schema'', JObj [(''type'', JStr ''integer'')])]"

definition traceHeaderDocument :: jsval where
  "traceHeaderDocument =
     JObj [(''parameters'',
            JObj [(''Trace'', JObj [(''name'', JStr ''X-Trace''), (''in'', JStr ''header''),
                                    (''required'', JBool True), (''type'', JStr ''string'')])])]"

definition traceHeaderRef :: jsval where
  "traceHeaderRef = JObj [(''$ref'', JStr ''#/parameters/Trace'')]"

definition idPathParameter :: ToolParameter where
  "idPathParameter =
     \<lparr>param_name = JStr ''id'', param_in = JStr ''path'', param_required = JBool True,
      param_schema = JObj [(''type'', JStr ''string'')], param_description = JUndefined\<rparr>"

text \<open>
  Schema fragments: an object whose \<^verbatim>\<open>required\<close> entry is a number, with a tool
  that has it as the schema of a parameter; a nested object with an array, a sealed
  object and a property of an unknown type; and a schema that refers to itself,
  \<^verbatim>\<open>Category\<close> with a property \<^verbatim>\<open>parent\<close> that is a \<^verbatim>\<open>Category\<close>, with the table
  of the dereferenced document and a tool whose parameter has that schema.
\<close>

definition categorySchema :: jsval where
  "categorySchema =
     JObj [(''type'', JStr ''object''),
           (''properties'',
              JObj [(''parent'', JObj [(''$ref'', JStr ''#/components/schemas/Category'')]),
                    (''name'', JObj [(''type'', JStr ''string'')])])]"

definition categoryObjects :: objects where
  "categoryObjects = [''#/components/schemas/Category'' \<mapsto> categorySchema]"

definition categoryTool :: GeneratedTool where
  "categoryTool =
     addCarTool\<lparr>tool_name := ''shop_listProducts'', tool_method := ''GET'', tool_path := ''/products'',
       tool_parameters :=
       [\<lparr>param_name = JStr ''category'', param_in = JStr ''query'', param_required = JBool False,
         param_schema = JObj [(''$ref'', JStr ''#/components/schemas/Category'')],
         param_description = JUndefined\<rparr>]\<rparr>"

definition nonIterableRequiredSchema :: jsval where
  "nonIterableRequiredSchema = JObj [(''type'', JStr ''object''), (''required'', JNum 5)]"

definition nonIterableRequiredTool :: GeneratedTool where
  "nonIterableRequiredTool =
     addCarTool\<lparr>tool_name := ''shop_listProducts'', tool_method := ''GET'', tool_path := ''/products'',
       tool_parameters :=
       [\<lparr>param_name = JStr ''filter'', param_in = JStr ''query'', param_required = JBool False,
         param_schema = nonIterableRequiredSchema, param_description = JUndefined\<rparr>]\<rparr>"

definition nestedSchema :: jsval where
  "nestedSchema =
     JObj [(''type'', JStr ''object''),
           (''required'', JArr [JStr ''tags'']),
           (''properties'',
              JObj [(''tags'', JObj [(''type'', JStr ''array''),
                                     (''items'', JObj [(''type'', JStr ''string'')])]),
                    (''owner'', JObj [(''type'', JStr ''object''),
                                      (''properties'', JObj [(''age'', JObj [(''type'', JStr ''integer'')])]),
                                      (''additionalProperties'', JBool False)]),
                    (''note'', JObj [(''type'', JStr ''mystery'')])])]"

text \<open>
  A server state with two APIs: \<^verbatim>\<open>cars\<close> with two tools and \<^verbatim>\<open>pets\<close> with one,
  each tool referred to by its spec and by its registry entry; and an environment
  in which only the server URL of \<^verbatim>\<open>cars\<close> is set.
\<close>

definition petsTool :: GeneratedTool where
  "petsTool = addCarTool\<lparr>tool_name := ''pets_listPets'', tool_method := ''GET'', tool_path := ''/pets''\<rparr>"

definition carsSpec :: ParsedSpec where
  "carsSpec = \<lparr>spec_apiName = ''cars'', spec_filePath = ''/specs/cars.json'',
               spec_doc = JObj [(''openapi'', JStr ''3.0.0'')], spec_tools = [0, 1]\<rparr>"

definition petsSpec :: ParsedSpec where
  "petsSpec = \<lparr>spec_apiName = ''pets'', spec_filePath = ''/specs/pets.yaml'',
               spec_doc = JObj [(''openapi'', JStr ''3.0.0'')], spec_tools = [2]\<rparr>"

definition exampleState :: server_state where
  "exampleState =
     \<lparr>toolStore = (\<lambda>r. if r = 0 then addCarTool else if r = 1 then getCarTool else petsTool),
      parsedSpecs = [(''/specs/cars.json'', carsSpec), (''/specs/pets.yaml'', petsSpec)],
      toolRegistry =
        [(''cars_addCar'', \<lparr>entry_spec = carsSpec, entry_tool = 0, entry_schema = ZObject [] Strip\<rparr>),
         (''cars_getCarById'',
            \<lparr>entry_spec = carsSpec, entry_tool = 1, entry_schema = ZObject [(''id'', ZString)] Strip\<rparr>),
         (''pets_listPets'', \<lparr>entry_spec = petsSpec, entry_tool = 2, entry_schema = ZObject [] Strip\<rparr>)],
      authConfig = Map.empty,
      lastEnvMtimeMs = Some 1,
      largeBatchConfirmations = Map.empty\<rparr>"

text \<open>
  The same state with one more registry entry of the API \<^verbatim>\<open>cars\<close>, whose tool
  definition is not among the tools of the parsed spec.
\<close>

definition listCarsTool :: GeneratedTool where
  "listCarsTool = addCarTool\<lparr>tool_name := ''cars_listCars'', tool_method := ''GET''\<rparr>"

definition registryOnlyState :: server_state where
  "registryOnlyState =
     exampleState
       \<lparr>toolStore := (toolStore exampleState)(3 := listCarsTool),
        toolRegistry :=
          toolRegistry exampleState
          @ [(''cars_listCars'', \<lparr>entry_spec = carsSpec, entry_tool = 3, entry_schema = ZObject [] Strip\<rparr>)]\<rparr>"

definition exampleEnvironment :: environment where
  "exampleEnvironment =
     \<lparr>env_mtime = Some 2,
      process_env = [(''CARS_SERVER_URL'', Some ''https://cars.example''),
                     (''PETS_SERVER_URL'', Some [])]\<rparr>"

text \<open>
  Batch invocations: a runtime whose validator checks one thing that the
  validator of the program checks, that the item is an object with every field
  its shape does not mark optional; an invocation at a given time with a given
  fresh UUID, whose configuration file is unchanged and whose transport answers
  200; arguments that name a tool with a number of empty items; and a state with a
  pending confirmation token.
\<close>

definition presenceParse :: "zod \<Rightarrow> jsval \<Rightarrow> string + (string \<times> jsval) list" where
  "presenceParse schema item =
     (case item of
        JObj kvs \<Rightarrow>
          (case schema of
             ZObject shape policy \<Rightarrow>
               if list_all (\<lambda>field. (case snd field of ZOptional inner \<Rightarrow> True | _ \<Rightarrow> False)
                                    \<or> fst field \<in> set (map fst kvs)) shape
               then Inr kvs
               else Inl ''Required''
           | _ \<Rightarrow> Inr kvs)
      | _ \<Rightarrow> Inl ''Expected object'')"

definition presenceRuntime :: runtime where
  "presenceRuntime = \<lparr>rt_platform = identityPlatform, rt_safeParse = presenceParse\<rparr>"

definition invocationAt :: "int \<Rightarrow> string \<Rightarrow> invocation" where
  "invocationAt t uuid =
     \<lparr>inv_environment = \<lparr>env_mtime = Some 1, process_env = []\<rparr>,
      inv_lookup_time = t, inv_issue_time = t, inv_uuid = uuid,
      inv_transport = (\<lambda>i config. Responded 200 JNull)\<rparr>"

definition batchArgs :: "string \<Rightarrow> nat \<Rightarrow> (string \<times> jsval) list \<Rightarrow> (string \<times> jsval) list" where
  "batchArgs rawName n extra =
     [(''toolName'', JStr rawName), (''items'', JArr (replicate n (JObj [])))] @ extra"

definition confirmFields :: "string \<Rightarrow> (string \<times> jsval) list" where
  "confirmFields tok = [(''confirmLargeBatch'', JBool True), (''confirmLargeBatchToken'', JStr tok)]"

definition addCarEntry :: ToolRegistryEntry where
  "addCarEntry = \<lparr>entry_spec = carsSpec, entry_tool = 0, entry_schema = ZObject [] Strip\<rparr>"

definition getCarEntry :: ToolRegistryEntry where
  "getCarEntry =
     \<lparr>entry_spec = carsSpec, entry_tool = 1, entry_schema = ZObject [(''id'', ZString)] Strip\<rparr>"

definition pendingState :: server_state where
  "pendingState =
     exampleState\<lparr>largeBatchConfirmations :=
       [''t1'' \<mapsto> \<lparr>conf_toolName = ''cars_getCarById'', conf_count = 201, conf_expiresAt = 301000\<rparr>]\<rparr>"

section \<open>Properties of the auth resolver\<close>

lemma authStep_empty_value: "\<not> hasValue kv \<Longrightarrow> authStep kv cfg = cfg"
  by (auto simp: authStep_def hasValue_def)

lemma fold_authStep_filter:
  "fold authStep (filter hasValue env) cfg = fold authStep env cfg"
proof (induction env arbitrary: cfg)
  case Nil
  show ?case by simp
next
  case (Cons kv env)
  show ?case
  proof (cases "hasValue kv")
    case True
    then show ?thesis using Cons.IH by simp
  next
    case False
    then show ?thesis using Cons.IH by (simp add: authStep_empty_value)
  qed
qed

lemma getEnvPlaceholderValue_empty: "getEnvPlaceholderValue key = []"
  by (simp add: getEnvPlaceholderValue_def)

lemma fold_authStep_append: "fold authStep (xs @ ys) cfg = fold authStep ys (fold authStep xs cfg)"
  by simp

lemma fold_authStep_all_empty:
  "list_all (\<lambda>kv. \<not> hasValue kv) ps \<Longrightarrow> fold authStep ps cfg = cfg"
  by (induction ps arbitrary: cfg) (auto simp: authStep_empty_value)

lemma placeholderEntries_all_empty:
  "list_all (\<lambda>kv. \<not> hasValue kv) (placeholderEntries existingKeys apiNames)"
  by (simp add: placeholderEntries_def list_all_iff getEnvPlaceholderValue_empty hasValue_def)

text \<open>
  Claim C10. An environment variable whose value is undefined or empty changes
  nothing: the loop step returns the configuration it was given, so no record is
  created and none is modified. Hence a run over an environment equals the run over
  that environment without its empty variables, and the placeholder entries that
  \<^verbatim>\<open>ensureEnvKeysForSpecs\<close> appends, wherever they stand between the other
  variables, leave the computed configuration as it is without them; placeholders
  alone give the empty configuration.
\<close>

theorem empty_value_never_yields_auth_record:
  "(snd kv = None \<or> snd kv = Some [] \<longrightarrow> authStep kv cfg = cfg)
   \<and> loadAuthConfig env = loadAuthConfig (filter hasValue env)
   \<and> loadAuthConfig (before @ placeholderEntries existingKeys apiNames @ after)
       = loadAuthConfig (before @ after)
   \<and> loadAuthConfig (placeholderEntries existingKeys apiNames) = Map.empty"
proof -
  have a: "snd kv = None \<or> snd kv = Some [] \<longrightarrow> authStep kv cfg = cfg"
    by (auto simp: authStep_empty_value hasValue_def)
  have b: "loadAuthConfig env = loadAuthConfig (filter hasValue env)"
    by (simp add: loadAuthConfig_def fold_authStep_filter)
  have p: "\<And>c. fold authStep (placeholderEntries existingKeys apiNames) c = c"
    by (rule fold_authStep_all_empty) (rule placeholderEntries_all_empty)
  have c: "loadAuthConfig (before @ placeholderEntries existingKeys apiNames @ after)
      = loadAuthConfig (before @ after)"
    by (simp add: loadAuthConfig_def p)
  have d: "loadAuthConfig (placeholderEntries existingKeys apiNames) = Map.empty"
    by (simp add: loadAuthConfig_def p)
  from a b c d show ?thesis by blast
qed

theorem empty_value_never_yields_auth_record_witness:
  "authStep (''CARS_BEARER_TOKEN'', Some []) Map.empty = Map.empty
   \<and> loadAuthConfig [(''CARS_SERVER_URL'', Some []), (''CARS_API_KEY'', Some ''abc''), (''X_TOKEN'', None)]
       = loadAuthConfig [(''CARS_API_KEY'', Some ''abc'')]
   \<and> placeholderEntries [''CARS_API_KEY''] [''cars'']
       = [(''CARS_SERVER_URL'', Some []), (''CARS_BEARER_TOKEN'', Some [])]
   \<and> loadAuthConfig ([(''CARS_API_KEY'', Some ''abc'')] @ placeholderEntries [''CARS_API_KEY''] [''cars''] @ [])
       = loadAuthConfig ([(''CARS_API_KEY'', Some ''abc'')] @ [])
   \<and> loadAuthConfig (placeholderEntries [''CARS_API_KEY''] [''cars'']) = Map.empty"
proof -
  have f: "filter hasValue [(''CARS_SERVER_URL'', Some []), (''CARS_API_KEY'', Some ''abc''), (''X_TOKEN'', None)]
      = [(''CARS_API_KEY'', Some ''abc'')]"
    by (simp add: hasValue_def)
  have p: "placeholderEntries [''CARS_API_KEY''] [''cars'']
      = [(''CARS_SERVER_URL'', Some []), (''CARS_BEARER_TOKEN'', Some [])]"
    by code_simp
  note t = empty_value_never_yields_auth_record
    [of "(''CARS_BEARER_TOKEN'', Some [])" Map.empty
        "[(''CARS_SERVER_URL'', Some []), (''CARS_API_KEY'', Some ''abc''), (''X_TOKEN'', None)]"
        "[(''CARS_API_KEY'', Some ''abc'')]" "[''CARS_API_KEY'']" "[''cars'']" "[]"]
  from t f p show ?thesis by simp
qed

lemma authStep_at:
  "authStep kv cfg name =
     (if hasValue kv then
        (case classify (fst kv) of
           None \<Rightarrow> cfg name
         | Some (apiName, authType, configKey) \<Rightarrow>
             if apiName \<noteq> [] \<and> apiName = name
             then Some (updateRecord authType configKey (the (snd kv)) (cfg name))
             else cfg name)
      else cfg name)"
proof (cases "snd kv")
  case None
  then show ?thesis by (simp add: authStep_def hasValue_def)
next
  case (Some v)
  show ?thesis
  proof (cases "classify (fst kv)")
    case None
    then show ?thesis using Some by (simp add: authStep_def hasValue_def)
  next
    case (Some c)
    obtain a t k where c: "c = (a, t, k)" by (cases c) auto
    show ?thesis using \<open>snd kv = Some v\<close> Some c by (simp add: authStep_def hasValue_def)
  qed
qed

lemma authStep_cong_at:
  "cfg name = cfg' name \<Longrightarrow> authStep kv cfg name = authStep kv cfg' name"
  by (simp only: authStep_at)

lemma authStep_irrelevant:
  "\<not> classifiesTo name kv \<Longrightarrow> authStep kv cfg name = cfg name"
  by (cases "classify (fst kv)") (auto simp: authStep_at classifiesTo_def)

lemma fold_authStep_cong_at:
  "cfg name = cfg' name \<Longrightarrow> fold authStep env cfg name = fold authStep env cfg' name"
proof (induction env arbitrary: cfg cfg')
  case Nil
  then show ?case by simp
next
  case (Cons kv env)
  have "authStep kv cfg name = authStep kv cfg' name"
    using Cons.prems by (rule authStep_cong_at)
  then have "fold authStep env (authStep kv cfg) name = fold authStep env (authStep kv cfg') name"
    by (rule Cons.IH)
  then show ?case by simp
qed

lemma fold_authStep_relevant:
  "fold authStep env cfg name = fold authStep (filter (classifiesTo name) env) cfg name"
proof (induction env arbitrary: cfg)
  case Nil
  show ?case by simp
next
  case (Cons kv env)
  show ?case
  proof (cases "classifiesTo name kv")
    case True
    then show ?thesis using Cons.IH by simp
  next
    case False
    have "fold authStep env (authStep kv cfg) name = fold authStep env cfg name"
      by (rule fold_authStep_cong_at) (simp add: authStep_irrelevant False)
    then show ?thesis using False Cons.IH by simp
  qed
qed

lemma run_api_key:
  "fold authStep [(''CARS_API_KEY'', Some ''abc'')] Map.empty ''cars''
     = Some \<lparr>auth_type = ApiKey, token = Some ''abc'', username = None,
              password = None, headerName = Some ''X-API-Key''\<rparr>"
  by code_simp

lemma run_token:
  "fold authStep [(''CARS_TOKEN'', Some ''xyz'')] Map.empty ''cars''
     = Some \<lparr>auth_type = Bearer, token = Some ''xyz'', username = None,
              password = None, headerName = None\<rparr>"
  by code_simp

lemma run_key_then_token:
  "fold authStep [(''CARS_API_KEY'', Some ''abc''), (''CARS_TOKEN'', Some ''xyz'')] Map.empty ''cars''
     = Some \<lparr>auth_type = Bearer, token = Some ''xyz'', username = None,
              password = None, headerName = Some ''X-API-Key''\<rparr>"
  by code_simp

lemma run_token_then_key:
  "fold authStep [(''CARS_TOKEN'', Some ''xyz''), (''CARS_API_KEY'', Some ''abc'')] Map.empty ''cars''
     = Some \<lparr>auth_type = Bearer, token = Some ''abc'', username = None,
              password = None, headerName = Some ''X-API-Key''\<rparr>"
  by code_simp

text \<open>
  Claim C4, as amended. In any environment, what the record of \<^verbatim>\<open>cars\<close> is depends
  only on the variables that are not skipped and classify to \<^verbatim>\<open>cars\<close>, in scan
  order. When that is \<^verbatim>\<open>CARS_API_KEY=abc\<close> alone the record is an API key record with
  token \<^verbatim>\<open>abc\<close> and header name \<^verbatim>\<open>X-API-Key\<close>; when it is \<^verbatim>\<open>CARS_TOKEN=xyz\<close> alone the
  record is a bearer record with token \<^verbatim>\<open>xyz\<close>. When both are present the type is
  bearer and the header name is \<^verbatim>\<open>X-API-Key\<close> in either scan order, and the token is
  the value of the variable scanned last: \<^verbatim>\<open>xyz\<close> when the API key comes first,
  \<^verbatim>\<open>abc\<close> when the token comes first. An API name that no variable classifies to has
  no record.
\<close>

theorem cars_auth_classification:
  "(filter (classifiesTo ''cars'') env = [(''CARS_API_KEY'', Some ''abc'')] \<longrightarrow>
      loadAuthConfig env ''cars''
        = Some \<lparr>auth_type = ApiKey, token = Some ''abc'', username = None,
                 password = None, headerName = Some ''X-API-Key''\<rparr>)
   \<and> (filter (classifiesTo ''cars'') env = [(''CARS_TOKEN'', Some ''xyz'')] \<longrightarrow>
      loadAuthConfig env ''cars''
        = Some \<lparr>auth_type = Bearer, token = Some ''xyz'', username = None,
                 password = None, headerName = None\<rparr>)
   \<and> (filter (classifiesTo ''cars'') env
         = [(''CARS_API_KEY'', Some ''abc''), (''CARS_TOKEN'', Some ''xyz'')] \<longrightarrow>
      loadAuthConfig env ''cars''
        = Some \<lparr>auth_type = Bearer, token = Some ''xyz'', username = None,
                 password = None, headerName = Some ''X-API-Key''\<rparr>)
   \<and> (filter (classifiesTo ''cars'') env
         = [(''CARS_TOKEN'', Some ''xyz''), (''CARS_API_KEY'', Some ''abc'')] \<longrightarrow>
      loadAuthConfig env ''cars''
        = Some \<lparr>auth_type = Bearer, token = Some ''abc'', username = None,
                 password = None, headerName = Some ''X-API-Key''\<rparr>)
   \<and> (filter (classifiesTo name) env = [] \<longrightarrow> loadAuthConfig env name = None)"
proof -
  have r: "\<And>n. loadAuthConfig env n = fold authStep (filter (classifiesTo n) env) Map.empty n"
    unfolding loadAuthConfig_def by (rule fold_authStep_relevant)
  have c1: "filter (classifiesTo ''cars'') env = [(''CARS_API_KEY'', Some ''abc'')] \<longrightarrow>
      loadAuthConfig env ''cars''
        = Some \<lparr>auth_type = ApiKey, token = Some ''abc'', username = None,
                 password = None, headerName = Some ''X-API-Key''\<rparr>"
  proof
    assume h: "filter (classifiesTo ''cars'') env = [(''CARS_API_KEY'', Some ''abc'')]"
    show "loadAuthConfig env ''cars''
        = Some \<lparr>auth_type = ApiKey, token = Some ''abc'', username = None,
                 password = None, headerName = Some ''X-API-Key''\<rparr>"
      by (simp only: r h run_api_key)
  qed
  have c2: "filter (classifiesTo ''cars'') env = [(''CARS_TOKEN'', Some ''xyz'')] \<longrightarrow>
      loadAuthConfig env ''cars''
        = Some \<lparr>auth_type = Bearer, token = Some ''xyz'', username = None,
                 password = None, headerName = None\<rparr>"
  proof
    assume h: "filter (classifiesTo ''cars'') env = [(''CARS_TOKEN'', Some ''xyz'')]"
    show "loadAuthConfig env ''cars''
        = Some \<lparr>auth_type = Bearer, token = Some ''xyz'', username = None,
                 password = None, headerName = None\<rparr>"
      by (simp only: r h run_token)
  qed
  have c3: "filter (classifiesTo ''cars'') env
         = [(''CARS_API_KEY'', Some ''abc''), (''CARS_TOKEN'', Some ''xyz'')] \<longrightarrow>
      loadAuthConfig env ''cars''
        = Some \<lparr>auth_type = Bearer, token = Some ''xyz'', username = None,
                 password = None, headerName = Some ''X-API-Key''\<rparr>"
  proof
    assume h: "filter (classifiesTo ''cars'') env
         = [(''CARS_API_KEY'', Some ''abc''), (''CARS_TOKEN'', Some ''xyz'')]"
    show "loadAuthConfig env ''cars''
        = Some \<lparr>auth_type = Bearer, token = Some ''xyz'', username = None,
                 password = None, headerName = Some ''X-API-Key''\<rparr>"
      by (simp only: r h run_key_then_token)
  qed
  have c4: "filter (classifiesTo ''cars'') env
         = [(''CARS_TOKEN'', Some ''xyz''), (''CARS_API_KEY'', Some ''abc'')] \<longrightarrow>
      loadAuthConfig env ''cars''
        = Some \<lparr>auth_type = Bearer, token = Some ''abc'', username = None,
                 password = None, headerName = Some ''X-API-Key''\<rparr>"
  proof
    assume h: "filter (classifiesTo ''cars'') env
         = [(''CARS_TOKEN'', Some ''xyz''), (''CARS_API_KEY'', Some ''abc'')]"
    show "loadAuthConfig env ''cars''
        = Some \<lparr>auth_type = Bearer, token = Some ''abc'', username = None,
                 password = None, headerName = Some ''X-API-Key''\<rparr>"
      by (simp only: r h run_token_then_key)
  qed
  have c5: "filter (classifiesTo name) env = [] \<longrightarrow> loadAuthConfig env name = None"
  proof
    assume h: "filter (classifiesTo name) env = []"
    show "loadAuthConfig env name = None"
      by (simp only: r h fold_simps id_apply)
  qed
  from c1 c2 c3 c4 c5 show ?thesis by (intro conjI)
qed

lemma relevant_key_only:
  "filter (classifiesTo ''cars'')
     [(''PATH'', Some ''/usr/bin''), (''CARS_API_KEY'', Some ''abc''), (''CARS_SERVER_URL'', Some [])]
   = [(''CARS_API_KEY'', Some ''abc'')]"
  by code_simp

lemma relevant_token_only:
  "filter (classifiesTo ''cars'')
     [(''CARS_TOKEN'', Some ''xyz''), (''GITHUB_TOKEN'', Some ''ghp''), (''CARS_BEARER_TOKEN'', Some [])]
   = [(''CARS_TOKEN'', Some ''xyz'')]"
  by code_simp

lemma relevant_key_then_token:
  "filter (classifiesTo ''cars'')
     [(''CARS_API_KEY'', Some ''abc''), (''HOME'', Some ''/root''), (''CARS_TOKEN'', Some ''xyz'')]
   = [(''CARS_API_KEY'', Some ''abc''), (''CARS_TOKEN'', Some ''xyz'')]"
  by code_simp

lemma relevant_token_then_key:
  "filter (classifiesTo ''cars'')
     [(''CARS_TOKEN'', Some ''xyz''), (''HOME'', Some ''/root''), (''CARS_API_KEY'', Some ''abc'')]
   = [(''CARS_TOKEN'', Some ''xyz''), (''CARS_API_KEY'', Some ''abc'')]"
  by code_simp

lemma relevant_none:
  "filter (classifiesTo ''github'')
     [(''CARS_TOKEN'', Some ''xyz''), (''HOME'', Some ''/root''), (''CARS_API_KEY'', Some ''abc'')]
   = []"
  by code_simp

theorem cars_auth_classification_witness:
  "loadAuthConfig
     [(''PATH'', Some ''/usr/bin''), (''CARS_API_KEY'', Some ''abc''), (''CARS_SERVER_URL'', Some [])] ''cars''
     = Some \<lparr>auth_type = ApiKey, token = Some ''abc'', username = None,
              password = None, headerName = Some ''X-API-Key''\<rparr>
   \<and> loadAuthConfig
     [(''CARS_TOKEN'', Some ''xyz''), (''GITHUB_TOKEN'', Some ''ghp''), (''CARS_BEARER_TOKEN'', Some [])] ''cars''
     = Some \<lparr>auth_type = Bearer, token = Some ''xyz'', username = None,
              password = None, headerName = None\<rparr>
   \<and> loadAuthConfig
     [(''CARS_API_KEY'', Some ''abc''), (''HOME'', Some ''/root''), (''CARS_TOKEN'', Some ''xyz'')] ''cars''
     = Some \<lparr>auth_type = Bearer, token = Some ''xyz'', username = None,
              password = None, headerName = Some ''X-API-Key''\<rparr>
   \<and> loadAuthConfig
     [(''CARS_TOKEN'', Some ''xyz''), (''HOME'', Some ''/root''), (''CARS_API_KEY'', Some ''abc'')] ''cars''
     = Some \<lparr>auth_type = Bearer, token = Some ''abc'', username = None,
              password = None, headerName = Some ''X-API-Key''\<rparr>
   \<and> loadAuthConfig
     [(''CARS_TOKEN'', Some ''xyz''), (''HOME'', Some ''/root''), (''CARS_API_KEY'', Some ''abc'')] ''github''
     = None"
proof -
  note t1 = cars_auth_classification
    [of "[(''PATH'', Some ''/usr/bin''), (''CARS_API_KEY'', Some ''abc''), (''CARS_SERVER_URL'', Some [])]"
        "''github''"]
  note t2 = cars_auth_classification
    [of "[(''CARS_TOKEN'', Some ''xyz''), (''GITHUB_TOKEN'', Some ''ghp''), (''CARS_BEARER_TOKEN'', Some [])]"
        "''cars''"]
  note t3 = cars_auth_classification
    [of "[(''CARS_API_KEY'', Some ''abc''), (''HOME'', Some ''/root''), (''CARS_TOKEN'', Some ''xyz'')]"
        "''cars''"]
  note t4 = cars_auth_classification
    [of "[(''CARS_TOKEN'', Some ''xyz''), (''HOME'', Some ''/root''), (''CARS_API_KEY'', Some ''abc'')]"
        "''github''"]
  have a: "loadAuthConfig
     [(''PATH'', Some ''/usr/bin''), (''CARS_API_KEY'', Some ''abc''), (''CARS_SERVER_URL'', Some [])] ''cars''
     = Some \<lparr>auth_type = ApiKey, token = Some ''abc'', username = None,
              password = None, headerName = Some ''X-API-Key''\<rparr>"
    using t1 relevant_key_only by blast
  have b: "loadAuthConfig
     [(''CARS_TOKEN'', Some ''xyz''), (''GITHUB_TOKEN'', Some ''ghp''), (''CARS_BEARER_TOKEN'', Some [])] ''cars''
     = Some \<lparr>auth_type = Bearer, token = Some ''xyz'', username = None,
              password = None, headerName = None\<rparr>"
    using t2 relevant_token_only by blast
  have c: "loadAuthConfig
     [(''CARS_API_KEY'', Some ''abc''), (''HOME'', Some ''/root''), (''CARS_TOKEN'', Some ''xyz'')] ''cars''
     = Some \<lparr>auth_type = Bearer, token = Some ''xyz'', username = None,
              password = None, headerName = Some ''X-API-Key''\<rparr>"
    using t3 relevant_key_then_token by blast
  have d: "loadAuthConfig
     [(''CARS_TOKEN'', Some ''xyz''), (''HOME'', Some ''/root''), (''CARS_API_KEY'', Some ''abc'')] ''cars''
     = Some \<lparr>auth_type = Bearer, token = Some ''abc'', username = None,
              password = None, headerName = Some ''X-API-Key''\<rparr>"
    using t4 relevant_token_then_key by blast
  have e: "loadAuthConfig
     [(''CARS_TOKEN'', Some ''xyz''), (''HOME'', Some ''/root''), (''CARS_API_KEY'', Some ''abc'')] ''github''
     = None"
    using t4 relevant_none by blast
  from a b c d e show ?thesis by (intro conjI)
qed

text \<open>
  The claim as stated fails where \<^verbatim>\<open>CARS_TOKEN\<close> is scanned before \<^verbatim>\<open>CARS_API_KEY\<close>:
  the record is a bearer record, but its token is \<^verbatim>\<open>abc\<close>, not \<^verbatim>\<open>xyz\<close>.
\<close>

theorem token_depends_on_scan_order:
  "loadAuthConfig [(''CARS_TOKEN'', Some ''xyz''), (''CARS_API_KEY'', Some ''abc'')] ''cars''
     = Some \<lparr>auth_type = Bearer, token = Some ''abc'', username = None,
              password = None, headerName = Some ''X-API-Key''\<rparr>"
  unfolding loadAuthConfig_def by (rule run_token_then_key)

section \<open>Properties of the request builder and executor\<close>

lemma buildRequestBody_not_undefined: "buildRequestBody tool args \<noteq> JUndefined"
  by (simp add: buildRequestBody_def Let_def split: option.splits)

lemma body_of_config:
  assumes "buildRequestConfig pf ctx args = Inr cfg"
  shows "dataOrNull cfg = buildRequestBody (ctx_tool ctx) args"
proof -
  have nu: "buildRequestBody (ctx_tool ctx) args \<noteq> JUndefined"
    by (rule buildRequestBody_not_undefined)
  from assms obtain url where
    "req_data cfg = (if buildRequestBody (ctx_tool ctx) args \<noteq> JNull
                     then Some (buildRequestBody (ctx_tool ctx) args) else None)"
    by (auto simp: buildRequestConfig_def Let_def split: sum.splits)
  then show ?thesis using nu by (simp add: dataOrNull_def nullish_or_def)
qed

lemma build_without_parameters:
  "tool_parameters (ctx_tool ctx) = [] \<Longrightarrow> \<exists>cfg. buildRequestConfig pf ctx args = Inr cfg"
  by (simp add: buildRequestConfig_def buildUrl_def Let_def)

lemma build_fails_example:
  "buildRequestConfig failingPlatform (contextOf getCarTool) [(''id'', JStr ''7'')]
     = Inl (JsError ''URI malformed'')"
  by (simp add: buildRequestConfig_def buildUrl_def getCarTool_def contextOf_def addCarTool_def
        failingPlatform_def getArg_def lookupKey_def)

text \<open>
  Claim C1, as amended. For every tool and every record of arguments the request
  body is resolved as follows. When the tool declares a request body: an explicit
  \<^verbatim>\<open>body\<close> argument, else an explicit \<^verbatim>\<open>requestBody\<close> argument, else the object of
  all arguments whose key is not the name of a declared parameter (the entries of
  the arguments with such a key, all of them and in their order) when that object
  is not empty, else no body. When the tool declares no request body: no body if it
  has no body-location parameter; otherwise the argument named by its first
  body-location parameter, else an explicit \<^verbatim>\<open>body\<close> argument, else no body. The
  request configuration carries exactly this body.
\<close>

theorem request_body_precedence:
  "(truthy (tool_requestBody tool) \<and> lookupKey args ''body'' \<noteq> JUndefined
      \<longrightarrow> buildRequestBody tool args = lookupKey args ''body'')
   \<and> (truthy (tool_requestBody tool) \<and> lookupKey args ''body'' = JUndefined
        \<and> lookupKey args ''requestBody'' \<noteq> JUndefined
      \<longrightarrow> buildRequestBody tool args = lookupKey args ''requestBody'')
   \<and> (truthy (tool_requestBody tool) \<and> lookupKey args ''body'' = JUndefined
        \<and> lookupKey args ''requestBody'' = JUndefined
      \<longrightarrow> buildRequestBody tool args
            = (if filter (\<lambda>kv. \<forall>p \<in> set (tool_parameters tool). param_name p \<noteq> JStr (fst kv)) args = []
               then JNull
               else JObj (filter (\<lambda>kv. \<forall>p \<in> set (tool_parameters tool). param_name p \<noteq> JStr (fst kv))
                            args)))
   \<and> (\<not> truthy (tool_requestBody tool)
        \<and> find (\<lambda>p. param_in p = JStr ''body'') (tool_parameters tool) = None
      \<longrightarrow> buildRequestBody tool args = JNull)
   \<and> (\<not> truthy (tool_requestBody tool)
        \<and> find (\<lambda>p. param_in p = JStr ''body'') (tool_parameters tool) = Some bodyParam
        \<and> getArg args (param_name bodyParam) \<noteq> JUndefined
      \<longrightarrow> buildRequestBody tool args = getArg args (param_name bodyParam))
   \<and> (\<not> truthy (tool_requestBody tool)
        \<and> find (\<lambda>p. param_in p = JStr ''body'') (tool_parameters tool) = Some bodyParam
        \<and> getArg args (param_name bodyParam) = JUndefined
      \<longrightarrow> buildRequestBody tool args = nullish_or (lookupKey args ''body'') JNull)
   \<and> (buildRequestConfig pf ctx args = Inr cfg
      \<longrightarrow> dataOrNull cfg = buildRequestBody (ctx_tool ctx) args)"
proof -
  have "leftoverArgs tool args
      = filter (\<lambda>kv. \<forall>p \<in> set (tool_parameters tool). param_name p \<noteq> JStr (fst kv)) args"
    unfolding leftoverArgs_def by (rule filter_cong) (auto simp: image_iff)
  then show ?thesis
    by (simp add: buildRequestBody_def Let_def body_of_config nullish_or_def)
qed

theorem request_body_precedence_witness:
  "buildRequestBody addCarToolWithBody [(''body'', JStr ''b''), (''requestBody'', JStr ''r'')] = JStr ''b''
   \<and> buildRequestBody addCarToolWithBody [(''name'', JStr ''Civic''), (''requestBody'', JStr ''r'')] = JStr ''r''
   \<and> buildRequestBody addCarToolWithBody [(''name'', JStr ''Civic'')] = JObj [(''name'', JStr ''Civic'')]
   \<and> buildRequestBody searchCarsTool
         [(''limit'', JNum 5), (''name'', JStr ''Civic''), (''year'', JNum 2020)]
       = JObj [(''name'', JStr ''Civic''), (''year'', JNum 2020)]
   \<and> buildRequestBody searchCarsTool [(''limit'', JNum 5)] = JNull
   \<and> buildRequestBody addCarTool [(''name'', JStr ''Civic'')] = JNull
   \<and> buildRequestBody swaggerBodyTool [(''body'', JStr ''b''), (''car'', JStr ''c'')] = JStr ''c''
   \<and> buildRequestBody swaggerBodyTool [(''body'', JStr ''b''), (''name'', JStr ''Civic'')] = JStr ''b''
   \<and> (\<exists>cfg. buildRequestConfig identityPlatform (contextOf addCarToolWithBody) [(''name'', JStr ''Civic'')]
               = Inr cfg
            \<and> dataOrNull cfg = JObj [(''name'', JStr ''Civic'')])"
proof -
  let ?p = "\<lparr>param_name = JStr ''car'', param_in = JStr ''body'', param_required = JBool True,
         param_schema = JObj [(''type'', JStr ''object'')], param_description = JUndefined\<rparr>"
  obtain cfg where
    cfg: "buildRequestConfig identityPlatform (contextOf addCarToolWithBody) [(''name'', JStr ''Civic'')]
            = Inr cfg"
    using build_without_parameters
      [of "contextOf addCarToolWithBody" identityPlatform "[(''name'', JStr ''Civic'')]"]
    by (auto simp: contextOf_def addCarToolWithBody_def addCarTool_def)
  have a: "buildRequestBody addCarToolWithBody [(''body'', JStr ''b''), (''requestBody'', JStr ''r'')] = JStr ''b''"
    using request_body_precedence
      [of addCarToolWithBody "[(''body'', JStr ''b''), (''requestBody'', JStr ''r'')]"]
    by (simp add: addCarToolWithBody_def addCarTool_def lookupKey_def)
  have b: "buildRequestBody addCarToolWithBody [(''name'', JStr ''Civic''), (''requestBody'', JStr ''r'')] = JStr ''r''"
    using request_body_precedence
      [of addCarToolWithBody "[(''name'', JStr ''Civic''), (''requestBody'', JStr ''r'')]"]
    by (simp add: addCarToolWithBody_def addCarTool_def lookupKey_def)
  have c: "buildRequestBody addCarToolWithBody [(''name'', JStr ''Civic'')] = JObj [(''name'', JStr ''Civic'')]"
    using request_body_precedence [of addCarToolWithBody "[(''name'', JStr ''Civic'')]"]
    by (simp add: addCarToolWithBody_def addCarTool_def lookupKey_def)
  have c1: "buildRequestBody searchCarsTool
         [(''limit'', JNum 5), (''name'', JStr ''Civic''), (''year'', JNum 2020)]
       = JObj [(''name'', JStr ''Civic''), (''year'', JNum 2020)]"
    using request_body_precedence
      [of searchCarsTool "[(''limit'', JNum 5), (''name'', JStr ''Civic''), (''year'', JNum 2020)]"]
    by (simp add: searchCarsTool_def addCarToolWithBody_def addCarTool_def lookupKey_def)
  have c2: "buildRequestBody searchCarsTool [(''limit'', JNum 5)] = JNull"
    using request_body_precedence [of searchCarsTool "[(''limit'', JNum 5)]"]
    by (simp add: searchCarsTool_def addCarToolWithBody_def addCarTool_def lookupKey_def)
  have d: "buildRequestBody addCarTool [(''name'', JStr ''Civic'')] = JNull"
    using request_body_precedence [of addCarTool "[(''name'', JStr ''Civic'')]"]
    by (simp add: addCarTool_def)
  have e: "buildRequestBody swaggerBodyTool [(''body'', JStr ''b''), (''car'', JStr ''c'')] = JStr ''c''"
    using request_body_precedence [of swaggerBodyTool "[(''body'', JStr ''b''), (''car'', JStr ''c'')]" ?p]
    by (simp add: swaggerBodyTool_def addCarTool_def getArg_def lookupKey_def)
  have f: "buildRequestBody swaggerBodyTool [(''body'', JStr ''b''), (''name'', JStr ''Civic'')] = JStr ''b''"
    using request_body_precedence [of swaggerBodyTool "[(''body'', JStr ''b''), (''name'', JStr ''Civic'')]" ?p]
    by (simp add: swaggerBodyTool_def addCarTool_def getArg_def lookupKey_def nullish_or_def)
  have g: "dataOrNull cfg = JObj [(''name'', JStr ''Civic'')]"
    using request_body_precedence
      [of addCarToolWithBody "[(''name'', JStr ''Civic'')]" _ identityPlatform
          "contextOf addCarToolWithBody" cfg] cfg c
    by (simp add: contextOf_def)
  from a b c c1 c2 d e f g cfg show ?thesis by blast
qed

text \<open>
  The claim as stated fails on the end-to-end example: the tool declares no request
  body and has no body-location parameter, and the single unmatched argument does
  not become the body: there is no body.
\<close>

theorem leftover_fallback_needs_declared_body:
  "buildRequestBody addCarTool [(''name'', JStr ''Civic'')] = JNull"
  by (simp add: buildRequestBody_def addCarTool_def)

text \<open>
  Claim C5. For every platform, transport behaviour, context and arguments the
  executor returns a result, also when the build throws (the result then has the
  empty URL, no request body, the status \<^verbatim>\<open>Error\<close> and the message as body). When
  the transport call failed, and the transport rejects with a response only on a
  status outside 200 to 299, the status of the result is not a success status
  code. When the remote returned a body with the failed call, the result carries
  that body, which is not null.
\<close>

theorem executeRequest_always_returns:
  "\<exists>r. executeRequest pf transport ctx args = Inr r
      \<and> (\<forall>e. buildRequestConfig pf ctx args = Inl e \<longrightarrow>
            r = \<lparr>requestUrl = [], requestBody = JNull,
                 response_status = StatusText ''Error'', response_body = errorBody e\<rparr>)
      \<and> (\<forall>cfg. buildRequestConfig pf ctx args = Inr cfg \<and> transportFailed (transport cfg)
                \<and> rejectsOnErrorStatus (transport cfg)
            \<longrightarrow> \<not> isSuccessStatus (response_status r))
      \<and> (\<forall>cfg d. buildRequestConfig pf ctx args = Inr cfg \<and> remoteBody (transport cfg) = Some d
            \<longrightarrow> response_body r = d \<and> response_body r \<noteq> JNull)"
proof (cases "buildRequestConfig pf ctx args")
  case (Inl e)
  then show ?thesis by (simp add: executeRequest_def isSuccessStatus_def)
next
  case (Inr cfg)
  show ?thesis
  proof (cases "transport cfg")
    case (Responded st d)
    then show ?thesis using Inr
      by (simp add: executeRequest_def transportFailed_def remoteBody_def)
  next
    case (AxiosFailed resp)
    show ?thesis
    proof (cases resp)
      case None
      then show ?thesis using Inr AxiosFailed
        by (simp add: executeRequest_def isSuccessStatus_def remoteBody_def)
    next
      case (Some sd)
      obtain st d where sd: "sd = (st, d)" by (cases sd) auto
      show ?thesis using Inr AxiosFailed Some sd
        by (auto simp: executeRequest_def isSuccessStatus_def remoteBody_def
              rejectsOnErrorStatus_def nullish_or_def split: if_splits)
    qed
  next
    case (OtherFailure e)
    then show ?thesis using Inr
      by (simp add: executeRequest_def isSuccessStatus_def remoteBody_def)
  qed
qed

theorem executeRequest_always_returns_witness:
  "(\<exists>r. executeRequest identityPlatform (\<lambda>c. AxiosFailed (Some (404, JStr ''no'')))
           (contextOf addCarTool) [] = Inr r
        \<and> \<not> isSuccessStatus (response_status r) \<and> response_body r = JStr ''no'')
   \<and> (\<exists>r. executeRequest failingPlatform (\<lambda>c. Responded 200 JNull)
           (contextOf getCarTool) [(''id'', JStr ''7'')] = Inr r
        \<and> r = \<lparr>requestUrl = [], requestBody = JNull, response_status = StatusText ''Error'',
                response_body = errorBody (JsError ''URI malformed'')\<rparr>)"
proof -
  obtain cfg where cfg: "buildRequestConfig identityPlatform (contextOf addCarTool) [] = Inr cfg"
    using build_without_parameters [of "contextOf addCarTool" identityPlatform "[]"]
    by (auto simp: contextOf_def addCarTool_def)
  have a: "\<exists>r. executeRequest identityPlatform (\<lambda>c. AxiosFailed (Some (404, JStr ''no'')))
           (contextOf addCarTool) [] = Inr r
        \<and> \<not> isSuccessStatus (response_status r) \<and> response_body r = JStr ''no''"
    using executeRequest_always_returns
      [of identityPlatform "\<lambda>c. AxiosFailed (Some (404, JStr ''no''))" "contextOf addCarTool" "[]"] cfg
    by (auto simp: transportFailed_def rejectsOnErrorStatus_def remoteBody_def isSuccessStatus_def)
  have b: "\<exists>r. executeRequest failingPlatform (\<lambda>c. Responded 200 JNull)
           (contextOf getCarTool) [(''id'', JStr ''7'')] = Inr r
        \<and> r = \<lparr>requestUrl = [], requestBody = JNull, response_status = StatusText ''Error'',
                response_body = errorBody (JsError ''URI malformed'')\<rparr>"
    using executeRequest_always_returns
      [of failingPlatform "\<lambda>c. Responded 200 JNull" "contextOf getCarTool" "[(''id'', JStr ''7'')]"]
      build_fails_example
    by auto
  from a b show ?thesis by blast
qed

section \<open>Properties of the tool compiler\<close>








lemma extractParameters_set:
  "p \<in> set (extractParameters paramRefs spec)
     \<longleftrightarrow> (\<exists>paramRef \<in> set paramRefs. parameterOf paramRef spec = Some p)"
  by (induction paramRefs) (auto split: option.splits)

lemma parameterOf_fields:
  assumes "parameterOf paramRef spec = Some p"
  shows "param_name p = getProp (resolveParameterRef paramRef spec) ''name''
       \<and> param_in p = getProp (resolveParameterRef paramRef spec) ''in''
       \<and> param_schema p = getParameterSchema (resolveParameterRef paramRef spec)
       \<and> param_required p
           = js_or (getProp (resolveParameterRef paramRef spec) ''required'')
                   (JBool (param_in p = JStr ''path''))"
  using assms by (auto simp: parameterOf_def Let_def split: if_splits)

lemma example_extract:
  "extractParameters [idPathFragment, limitQueryFragment, traceHeaderRef, JStr ''junk''] traceHeaderDocument
     = [\<lparr>param_name = JStr ''id'', param_in = JStr ''path'', param_required = JBool True,
         param_schema = JObj [(''type'', JStr ''string'')], param_description = JUndefined\<rparr>,
        \<lparr>param_name = JStr ''limit'', param_in = JStr ''query'', param_required = JBool False,
         param_schema = JObj [(''type'', JStr ''integer'')], param_description = JUndefined\<rparr>,
        \<lparr>param_name = JStr ''X-Trace'', param_in = JStr ''header'', param_required = JBool True,
         param_schema = JObj [(''type'', JStr ''string'')], param_description = JUndefined\<rparr>]"
  by (simp add: parameterOf_def resolveParameterRef_def getParameterSchema_def idPathFragment_def
        limitQueryFragment_def traceHeaderRef_def traceHeaderDocument_def lookupKey_def js_or_def
        resolveJsonPointer_def startsWith_def optionalField_def Let_def)

text \<open>
  Claim C6. Every descriptor that \<^verbatim>\<open>extractParameters\<close> emits comes from an entry
  of the parameter list, and its \<^verbatim>\<open>required\<close> flag is the declared flag of that
  entry if it is truthy, else whether the location is \<^verbatim>\<open>path\<close>. So a path
  parameter is always required: the flag is truthy, and it is \<^verbatim>\<open>true\<close> when the
  fragment declares \<^verbatim>\<open>required: false\<close>, \<^verbatim>\<open>required: true\<close> or leaves the field out.
  For any other location a declared boolean is kept, and an omitted flag is
  \<^verbatim>\<open>false\<close>.
\<close>

theorem path_parameters_are_required:
  assumes "p \<in> set (extractParameters paramRefs spec)"
  shows "(param_in p = JStr ''path'' \<longrightarrow> truthy (param_required p))
       \<and> (\<exists>paramRef \<in> set paramRefs.
             parameterOf paramRef spec = Some p
           \<and> (param_in p = JStr ''path''
                \<and> (declaredRequired paramRef spec = JUndefined
                    \<or> declaredRequired paramRef spec = JBool False
                    \<or> declaredRequired paramRef spec = JBool True)
                \<longrightarrow> param_required p = JBool True)
           \<and> (param_in p \<noteq> JStr ''path'' \<and> declaredRequired paramRef spec = JUndefined
                \<longrightarrow> param_required p = JBool False)
           \<and> (\<forall>b. param_in p \<noteq> JStr ''path'' \<and> declaredRequired paramRef spec = JBool b
                \<longrightarrow> param_required p = JBool b))"
proof -
  from assms obtain paramRef where r: "paramRef \<in> set paramRefs"
    and po: "parameterOf paramRef spec = Some p"
    by (auto simp: extractParameters_set)
  note f = parameterOf_fields [OF po]
  have req: "param_required p
      = js_or (declaredRequired paramRef spec) (JBool (param_in p = JStr ''path''))"
    using f by (simp add: declaredRequired_def)
  have t: "param_in p = JStr ''path'' \<longrightarrow> truthy (param_required p)"
    by (simp add: req js_or_def)
  have a: "param_in p = JStr ''path''
        \<and> (declaredRequired paramRef spec = JUndefined
            \<or> declaredRequired paramRef spec = JBool False
            \<or> declaredRequired paramRef spec = JBool True)
        \<longrightarrow> param_required p = JBool True"
    by (auto simp: req js_or_def)
  have b: "param_in p \<noteq> JStr ''path'' \<and> declaredRequired paramRef spec = JUndefined
        \<longrightarrow> param_required p = JBool False"
    by (auto simp: req js_or_def)
  have c: "\<forall>b. param_in p \<noteq> JStr ''path'' \<and> declaredRequired paramRef spec = JBool b
        \<longrightarrow> param_required p = JBool b"
    by (auto simp: req js_or_def)
  from r po t a b c show ?thesis by blast
qed

theorem path_parameters_are_required_witness:
  "idPathParameter
     \<in> set (extractParameters [idPathFragment, limitQueryFragment, traceHeaderRef, JStr ''junk'']
              traceHeaderDocument)
   \<and> declaredRequired idPathFragment traceHeaderDocument = JBool False
   \<and> param_in idPathParameter = JStr ''path''
   \<and> truthy (param_required idPathParameter)
   \<and> param_required (extractParameters [limitQueryFragment] traceHeaderDocument ! 0) = JBool False
   \<and> param_required (extractParameters [traceHeaderRef] traceHeaderDocument ! 0) = JBool True"
proof -
  have m: "idPathParameter
     \<in> set (extractParameters [idPathFragment, limitQueryFragment, traceHeaderRef, JStr ''junk'']
              traceHeaderDocument)"
    unfolding example_extract by (simp add: idPathParameter_def)
  have d: "declaredRequired idPathFragment traceHeaderDocument = JBool False"
    by (simp add: declaredRequired_def resolveParameterRef_def idPathFragment_def lookupKey_def)
  have i: "param_in idPathParameter = JStr ''path''"
    by (simp add: idPathParameter_def)
  have t: "truthy (param_required idPathParameter)"
    using path_parameters_are_required [OF m] i by blast
  have q: "extractParameters [limitQueryFragment] traceHeaderDocument
      = [\<lparr>param_name = JStr ''limit'', param_in = JStr ''query'', param_required = JBool False,
          param_schema = JObj [(''type'', JStr ''integer'')], param_description = JUndefined\<rparr>]"
    by (simp add: parameterOf_def resolveParameterRef_def getParameterSchema_def
          limitQueryFragment_def lookupKey_def js_or_def Let_def)
  have h: "extractParameters [traceHeaderRef] traceHeaderDocument
      = [\<lparr>param_name = JStr ''X-Trace'', param_in = JStr ''header'', param_required = JBool True,
          param_schema = JObj [(''type'', JStr ''string'')], param_description = JUndefined\<rparr>]"
    by (simp add: parameterOf_def resolveParameterRef_def getParameterSchema_def
          traceHeaderRef_def traceHeaderDocument_def lookupKey_def js_or_def
          resolveJsonPointer_def startsWith_def optionalField_def Let_def)
  from m d i t q h show ?thesis by simp
qed

section \<open>Properties of the schema synthesizer\<close>

lemma deref_plain: "getProp v ''$ref'' = JUndefined \<Longrightarrow> deref shared v = v"
  by (simp add: deref_def)

lemma deref_category:
  "deref categoryObjects (JObj [(''$ref'', JStr ''#/components/schemas/Category'')]) = categorySchema"
  by (simp add: deref_def categoryObjects_def lookupKey_def)

lemma uninterpretable_is_any:
  "\<not> truthy schema \<or> \<not> typeofObject schema \<or> \<not> recognizedType (readProp shared schema ''type'')
     \<Longrightarrow> openAPISchemaToZod shared (Suc depth) schema = Inr ZAny"
  by (subst openAPISchemaToZod.simps) (auto simp: recognizedType_def)

lemma throws_on_non_iterable_required:
  "openAPISchemaToZod shared (Suc depth) nonIterableRequiredSchema
     = Inl (notIterable (JNum 5))"
  by (subst openAPISchemaToZod.simps)
     (simp add: nonIterableRequiredSchema_def readProp_def deref_def lookupKey_def js_or_def
        iterate_def)

lemma tool_throws_on_non_iterable_required:
  "buildZodSchema shared (Suc depth) nonIterableRequiredTool = Inl (notIterable (JNum 5))"
proof -
  have "deref shared nonIterableRequiredSchema = nonIterableRequiredSchema"
    by (rule deref_plain) (simp add: nonIterableRequiredSchema_def lookupKey_def)
  then show ?thesis
    by (simp add: buildZodSchema_def nonIterableRequiredTool_def addCarTool_def
          throws_on_non_iterable_required)
qed

text \<open>
  On the schema that refers to itself every call makes a further call: whatever
  room the stack has, the synthesizer ends with the \<^verbatim>\<open>RangeError\<close>.
\<close>

lemma recursive_schema_overflows:
  "openAPISchemaToZod categoryObjects depth categorySchema = Inl rangeError"
proof (induction depth)
  case 0
  show ?case by (simp add: openAPISchemaToZod.simps)
next
  case (Suc depth)
  have props: "readEntries categoryObjects
        (js_or (readProp categoryObjects categorySchema ''properties'') (JObj []))
      = [(''parent'', categorySchema), (''name'', JObj [(''type'', JStr ''string'')])]"
    by (simp add: readEntries_def readProp_def categorySchema_def lookupKey_def js_or_def
          deref_def categoryObjects_def)
  have ty: "readProp categoryObjects categorySchema ''type'' = JStr ''object''"
    and req: "js_or (readProp categoryObjects categorySchema ''required'') (JArr []) = JArr []"
    by (simp_all add: readProp_def categorySchema_def lookupKey_def deref_def js_or_def)
  have obj: "truthy categorySchema" "typeofObject categorySchema"
    by (simp_all add: categorySchema_def)
  show ?case
    by (subst openAPISchemaToZod.simps)
       (simp add: obj ty req props Suc.IH iterate_def)
qed

lemma recursive_tool_overflows:
  "buildZodSchema categoryObjects depth categoryTool = Inl rangeError"
  by (simp add: buildZodSchema_def categoryTool_def addCarTool_def deref_category
        recursive_schema_overflows)

text \<open>
  A finite fragment is synthesised when the stack has room for its nesting, here
  three calls, and not when it has less.
\<close>

lemma nested_schema_synthesised:
  "openAPISchemaToZod Map.empty (Suc (Suc (Suc depth))) nestedSchema
     = Inr (ZObject [(''tags'', ZArray ZString),
                     (''owner'', ZOptional (ZObject [(''age'', ZOptional ZInt)] Strict)),
                     (''note'', ZOptional ZAny)] Loose)"
  "openAPISchemaToZod Map.empty (Suc (Suc 0)) nestedSchema = Inl rangeError"
  by (simp_all add: openAPISchemaToZod.simps nestedSchema_def readProp_def readEntries_def
        deref_def lookupKey_def js_or_def iterate_def)

text \<open>
  Claim C8. The synthesizer is not total. A fragment it cannot interpret (absent or
  falsy, not an object, or of no recognized type) is mapped to the accept-anything
  validator, as the claim says. But on an object fragment whose \<^verbatim>\<open>required\<close> entry
  is a number, building the set of required keys throws, whatever the room of the
  stack, and so does the compilation of a tool with such a parameter schema; and
  on a schema that refers to itself the recursion ends with the \<^verbatim>\<open>RangeError\<close> of
  the engine whatever the room of the stack, and so does the compilation of a tool
  whose parameter has that schema.
\<close>

theorem synthesis_is_not_total:
  "(\<not> truthy schema \<or> \<not> typeofObject schema \<or> \<not> recognizedType (readProp shared schema ''type'')
      \<longrightarrow> openAPISchemaToZod shared (Suc depth) schema = Inr ZAny)
   \<and> openAPISchemaToZod shared (Suc depth) nonIterableRequiredSchema
       = Inl (notIterable (JNum 5))
   \<and> buildZodSchema shared (Suc depth) nonIterableRequiredTool = Inl (notIterable (JNum 5))
   \<and> openAPISchemaToZod categoryObjects depth categorySchema = Inl rangeError
   \<and> buildZodSchema categoryObjects depth categoryTool = Inl rangeError"
  using uninterpretable_is_any throws_on_non_iterable_required tool_throws_on_non_iterable_required
    recursive_schema_overflows recursive_tool_overflows
  by blast

theorem synthesis_is_not_total_witness:
  "openAPISchemaToZod Map.empty (Suc 0) JUndefined = Inr ZAny
   \<and> openAPISchemaToZod Map.empty (Suc 0) (JStr ''junk'') = Inr ZAny
   \<and> openAPISchemaToZod Map.empty (Suc 0) (JObj [(''type'', JStr ''mystery'')]) = Inr ZAny
   \<and> openAPISchemaToZod Map.empty (Suc 0) nonIterableRequiredSchema
       = Inl (notIterable (JNum 5))
   \<and> buildZodSchema Map.empty (Suc 0) nonIterableRequiredTool = Inl (notIterable (JNum 5))
   \<and> openAPISchemaToZod categoryObjects 10000 categorySchema = Inl rangeError
   \<and> buildZodSchema categoryObjects 10000 categoryTool = Inl rangeError"
proof -
  have a: "openAPISchemaToZod Map.empty (Suc 0) JUndefined = Inr ZAny"
    using synthesis_is_not_total [of JUndefined Map.empty 0] by simp
  have b: "openAPISchemaToZod Map.empty (Suc 0) (JStr ''junk'') = Inr ZAny"
    using synthesis_is_not_total [of "JStr ''junk''" Map.empty 0] by simp
  have c: "openAPISchemaToZod Map.empty (Suc 0) (JObj [(''type'', JStr ''mystery'')]) = Inr ZAny"
    using synthesis_is_not_total [of "JObj [(''type'', JStr ''mystery'')]" Map.empty 0]
    by (simp add: recognizedType_def readProp_def deref_def lookupKey_def)
  note t = synthesis_is_not_total [of JUndefined Map.empty 0]
  have d: "openAPISchemaToZod Map.empty (Suc 0) nonIterableRequiredSchema
       = Inl (notIterable (JNum 5))"
    and e: "buildZodSchema Map.empty (Suc 0) nonIterableRequiredTool
       = Inl (notIterable (JNum 5))"
    using t by simp_all
  have f: "openAPISchemaToZod categoryObjects 10000 categorySchema = Inl rangeError"
    and g: "buildZodSchema categoryObjects 10000 categoryTool = Inl rangeError"
    using synthesis_is_not_total [of JUndefined Map.empty 10000] by simp_all
  from a b c d e f g show ?thesis by (intro conjI)
qed

section \<open>Properties of the hot reload\<close>

lemma fold_setBaseUrl:
  "fold (setBaseUrl u) rs store r
     = (if r \<in> set rs then (store r)\<lparr>tool_baseUrl := u\<rparr> else store r)"
  by (induction rs arbitrary: store) (auto simp: setBaseUrl_def)

lemma updateSpecTools_at:
  "updateSpecTools pf env registry spec store r
     = (case resolveServerUrl (spec_apiName spec) env of
          None \<Rightarrow> store r
        | Some newBaseUrl \<Rightarrow>
            if r \<in> set (ownedRefs registry spec)
            then (store r)\<lparr>tool_baseUrl := resolveToolBaseUrl pf spec newBaseUrl\<rparr>
            else store r)"
  by (simp add: updateSpecTools_def fold_setBaseUrl split: option.splits)

lemma same_baseUrl: "t\<lparr>tool_baseUrl := tool_baseUrl t\<rparr> = t"
  by simp

lemma updateSpecTools_frame:
  "\<exists>u. updateSpecTools pf env registry spec store r = (store r)\<lparr>tool_baseUrl := u\<rparr>"
proof (cases "resolveServerUrl (spec_apiName spec) env")
  case None
  then have "updateSpecTools pf env registry spec store r
      = (store r)\<lparr>tool_baseUrl := tool_baseUrl (store r)\<rparr>"
    by (simp add: updateSpecTools_at)
  then show ?thesis by blast
next
  case (Some newBaseUrl)
  show ?thesis
  proof (cases "r \<in> set (ownedRefs registry spec)")
    case True
    then show ?thesis using Some by (auto simp: updateSpecTools_at)
  next
    case False
    then have "updateSpecTools pf env registry spec store r
        = (store r)\<lparr>tool_baseUrl := tool_baseUrl (store r)\<rparr>"
      using Some by (simp add: updateSpecTools_at)
    then show ?thesis by blast
  qed
qed

lemma fold_updateSpecTools_frame:
  "\<exists>u. fold (updateSpecTools pf env registry) specs store r = (store r)\<lparr>tool_baseUrl := u\<rparr>"
proof (induction specs rule: rev_induct)
  case Nil
  have "fold (updateSpecTools pf env registry) [] store r
      = (store r)\<lparr>tool_baseUrl := tool_baseUrl (store r)\<rparr>"
    by simp
  then show ?case by blast
next
  case (snoc spec specs)
  then obtain u where u: "fold (updateSpecTools pf env registry) specs store r
      = (store r)\<lparr>tool_baseUrl := u\<rparr>" by blast
  obtain v where v: "updateSpecTools pf env registry spec
        (fold (updateSpecTools pf env registry) specs store) r
      = (fold (updateSpecTools pf env registry) specs store r)\<lparr>tool_baseUrl := v\<rparr>"
    using updateSpecTools_frame by blast
  have "fold (updateSpecTools pf env registry) (specs @ [spec]) store r
      = (store r)\<lparr>tool_baseUrl := v\<rparr>"
    using u v by simp
  then show ?case by blast
qed

lemma fold_updateSpecTools_untouched:
  "r \<notin> set (concat (map (ownedRefs registry) (filter (urlIsSet env) specs)))
     \<Longrightarrow> fold (updateSpecTools pf env registry) specs store r = store r"
proof (induction specs arbitrary: store)
  case Nil
  show ?case by simp
next
  case (Cons spec specs)
  have "updateSpecTools pf env registry spec store r = store r"
    using Cons.prems by (auto simp: updateSpecTools_at urlIsSet_def split: option.splits)
  moreover have "fold (updateSpecTools pf env registry) specs
        (updateSpecTools pf env registry spec store) r
      = updateSpecTools pf env registry spec store r"
    using Cons.prems by (intro Cons.IH) auto
  ultimately show ?case by simp
qed

lemma touched_iff:
  "r \<in> set (concat (map (ownedRefs registry) (filter (urlIsSet env) specs)))
     \<longleftrightarrow> (\<exists>spec \<in> set specs. urlIsSet env spec \<and> r \<in> set (ownedRefs registry spec))"
  by auto

lemma fold_updateSpecTools_pushed:
  "r \<in> set (concat (map (ownedRefs registry) (filter (urlIsSet env) specs)))
     \<Longrightarrow> \<exists>spec \<in> set specs. \<exists>u. r \<in> set (ownedRefs registry spec)
            \<and> resolveServerUrl (spec_apiName spec) env = Some u
            \<and> tool_baseUrl (fold (updateSpecTools pf env registry) specs store r)
                = resolveToolBaseUrl pf spec u"
proof (induction specs rule: rev_induct)
  case Nil
  then show ?case by simp
next
  case (snoc spec specs)
  let ?mid = "fold (updateSpecTools pf env registry) specs store"
  have step: "fold (updateSpecTools pf env registry) (specs @ [spec]) store r
      = updateSpecTools pf env registry spec ?mid r"
    by simp
  show ?case
  proof (cases "urlIsSet env spec \<and> r \<in> set (ownedRefs registry spec)")
    case True
    then obtain u where u: "resolveServerUrl (spec_apiName spec) env = Some u"
      by (auto simp: urlIsSet_def)
    have "tool_baseUrl (updateSpecTools pf env registry spec ?mid r) = resolveToolBaseUrl pf spec u"
      using True u by (simp add: updateSpecTools_at)
    then show ?thesis using True u step by auto
  next
    case False
    then have same: "updateSpecTools pf env registry spec ?mid r = ?mid r"
      by (auto simp: updateSpecTools_at urlIsSet_def split: option.splits)
    have "r \<in> set (concat (map (ownedRefs registry) (filter (urlIsSet env) specs)))"
      using snoc.prems False unfolding touched_iff by auto
    then obtain spec' u where "spec' \<in> set specs" "r \<in> set (ownedRefs registry spec')"
      "resolveServerUrl (spec_apiName spec') env = Some u"
      "tool_baseUrl (?mid r) = resolveToolBaseUrl pf spec' u"
      using snoc.IH by blast
    then show ?thesis using same step by auto
  qed
qed

lemma refresh_cases:
  "refreshEnvConfigIfChanged pf w force s = s
   \<or> (force \<or> env_mtime w \<noteq> lastEnvMtimeMs s)
     \<and> refreshEnvConfigIfChanged pf w force s
       = s\<lparr>toolStore :=
             fold (updateSpecTools pf (process_env w) (toolRegistry s)) (map snd (parsedSpecs s))
               (toolStore s),
           authConfig := loadAuthConfig (process_env w),
           lastEnvMtimeMs := env_mtime w\<rparr>"
  by (auto simp: refreshEnvConfigIfChanged_def updateToolBaseUrlsFromEnv_def)

lemma cars_url: "resolveServerUrl ''cars'' (process_env exampleEnvironment) = Some ''https://cars.example''"
  by (simp add: resolveServerUrl_def exampleEnvironment_def toUpperCase_def toUpperChar_def
        trim_def isWhitespace_def)

lemma pets_url: "resolveServerUrl ''pets'' (process_env exampleEnvironment) = None"
  by (simp add: resolveServerUrl_def exampleEnvironment_def toUpperCase_def toUpperChar_def
        trim_def isWhitespace_def)

lemma cars_resolved:
  "resolveToolBaseUrl identityPlatform carsSpec ''https://cars.example'' = ''https://cars.example''"
  by (simp add: resolveToolBaseUrl_def carsSpec_def appendOpenApiBasePath_def getOpenApiBasePath_def
        lookupKey_def trim_def)

lemma owned_iff:
  "r \<in> set (ownedRefs registry spec)
     \<longleftrightarrow> r \<in> set (spec_tools spec)
         \<or> (\<exists>entry \<in> snd ` set registry.
               spec_apiName (entry_spec entry) = spec_apiName spec \<and> entry_tool entry = r)"
  by (auto simp: ownedRefs_def)

lemma refresh_runs:
  "force \<or> env_mtime w \<noteq> lastEnvMtimeMs s
     \<Longrightarrow> toolStore (refreshEnvConfigIfChanged pf w force s)
         = fold (updateSpecTools pf (process_env w) (toolRegistry s)) (map snd (parsedSpecs s))
             (toolStore s)"
  by (auto simp: refreshEnvConfigIfChanged_def updateToolBaseUrlsFromEnv_def)

lemma refresh_pushes:
  assumes run: "force \<or> env_mtime w \<noteq> lastEnvMtimeMs s"
    and spec: "spec \<in> snd ` set (parsedSpecs s)"
    and url: "resolveServerUrl (spec_apiName spec) (process_env w) \<noteq> None"
    and own: "r \<in> set (ownedRefs (toolRegistry s) spec)"
  shows "\<exists>spec' \<in> snd ` set (parsedSpecs s). \<exists>u.
            r \<in> set (ownedRefs (toolRegistry s) spec')
          \<and> resolveServerUrl (spec_apiName spec') (process_env w) = Some u
          \<and> tool_baseUrl (toolStore (refreshEnvConfigIfChanged pf w force s) r)
              = resolveToolBaseUrl pf spec' u"
proof -
  have "r \<in> set (concat (map (ownedRefs (toolRegistry s))
                 (filter (urlIsSet (process_env w)) (map snd (parsedSpecs s)))))"
    unfolding touched_iff using spec url own by (auto simp: urlIsSet_def)
  then show ?thesis
    using fold_updateSpecTools_pushed [of r "toolRegistry s" "process_env w" "map snd (parsedSpecs s)"
        pf "toolStore s"]
    unfolding refresh_runs [OF run] by simp
qed

text \<open>
  Claim C9. A refresh leaves every tool definition as it was except for its base
  URL: the definition after the refresh is the one before with the base URL
  updated. The parsed specs and the registry keep their entries and references, so
  the update is seen through both. A definition is unchanged entirely unless, for
  some parsed spec whose server URL is set, it is among the tools of the spec or
  is the tool of a registry entry of the API name of the spec. When the refresh
  runs, both the tools of a parsed spec whose server URL is set and the tool of
  every registry entry of its API name have, as their base URL, the URL resolved
  for a parsed spec whose server URL is set and that has the definition among its
  tools or in a registry entry of its API name; this is the spec itself when no
  other such spec has it.
\<close>

theorem hot_reload_changes_only_base_urls:
  "(\<forall>r. \<exists>u. toolStore (refreshEnvConfigIfChanged pf w force s) r
              = (toolStore s r)\<lparr>tool_baseUrl := u\<rparr>)
   \<and> parsedSpecs (refreshEnvConfigIfChanged pf w force s) = parsedSpecs s
   \<and> toolRegistry (refreshEnvConfigIfChanged pf w force s) = toolRegistry s
   \<and> (\<forall>r. (\<forall>spec \<in> snd ` set (parsedSpecs s).
               resolveServerUrl (spec_apiName spec) (process_env w) \<noteq> None
               \<longrightarrow> r \<notin> set (spec_tools spec)
                 \<and> (\<forall>entry \<in> snd ` set (toolRegistry s).
                       spec_apiName (entry_spec entry) = spec_apiName spec
                       \<longrightarrow> entry_tool entry \<noteq> r))
         \<longrightarrow> toolStore (refreshEnvConfigIfChanged pf w force s) r = toolStore s r)
   \<and> (force \<or> env_mtime w \<noteq> lastEnvMtimeMs s \<longrightarrow>
        (\<forall>spec \<in> snd ` set (parsedSpecs s). \<forall>r.
           resolveServerUrl (spec_apiName spec) (process_env w) \<noteq> None
           \<and> (r \<in> set (spec_tools spec)
                \<or> (\<exists>entry \<in> snd ` set (toolRegistry s).
                      spec_apiName (entry_spec entry) = spec_apiName spec \<and> entry_tool entry = r))
           \<longrightarrow> (\<exists>spec' \<in> snd ` set (parsedSpecs s). \<exists>u.
                  resolveServerUrl (spec_apiName spec') (process_env w) = Some u
                  \<and> (r \<in> set (spec_tools spec')
                       \<or> (\<exists>entry \<in> snd ` set (toolRegistry s).
                             spec_apiName (entry_spec entry) = spec_apiName spec'
                             \<and> entry_tool entry = r))
                  \<and> tool_baseUrl (toolStore (refreshEnvConfigIfChanged pf w force s) r)
                      = resolveToolBaseUrl pf spec' u)))"
proof -
  let ?s' = "refreshEnvConfigIfChanged pf w force s"
  let ?store' = "fold (updateSpecTools pf (process_env w) (toolRegistry s)) (map snd (parsedSpecs s))
               (toolStore s)"
  have store: "toolStore ?s' = toolStore s \<or> toolStore ?s' = ?store'"
    using refresh_cases [of pf w force s] by auto
  have a: "\<forall>r. \<exists>u. toolStore ?s' r = (toolStore s r)\<lparr>tool_baseUrl := u\<rparr>"
  proof
    fix r
    have "\<exists>u. toolStore s r = (toolStore s r)\<lparr>tool_baseUrl := u\<rparr>"
      using same_baseUrl [of "toolStore s r"] by metis
    moreover have "\<exists>u. ?store' r = (toolStore s r)\<lparr>tool_baseUrl := u\<rparr>"
      by (rule fold_updateSpecTools_frame)
    ultimately show "\<exists>u. toolStore ?s' r = (toolStore s r)\<lparr>tool_baseUrl := u\<rparr>"
      using store by auto
  qed
  have c: "parsedSpecs ?s' = parsedSpecs s" and d: "toolRegistry ?s' = toolRegistry s"
    using refresh_cases [of pf w force s] by auto
  have b: "\<forall>r. (\<forall>spec \<in> snd ` set (parsedSpecs s).
               resolveServerUrl (spec_apiName spec) (process_env w) \<noteq> None
               \<longrightarrow> r \<notin> set (spec_tools spec)
                 \<and> (\<forall>entry \<in> snd ` set (toolRegistry s).
                       spec_apiName (entry_spec entry) = spec_apiName spec
                       \<longrightarrow> entry_tool entry \<noteq> r))
         \<longrightarrow> toolStore ?s' r = toolStore s r"
  proof (intro allI impI)
    fix r
    assume h: "\<forall>spec \<in> snd ` set (parsedSpecs s).
               resolveServerUrl (spec_apiName spec) (process_env w) \<noteq> None
               \<longrightarrow> r \<notin> set (spec_tools spec)
                 \<and> (\<forall>entry \<in> snd ` set (toolRegistry s).
                       spec_apiName (entry_spec entry) = spec_apiName spec
                       \<longrightarrow> entry_tool entry \<noteq> r)"
    have "\<not> (\<exists>spec \<in> set (map snd (parsedSpecs s)).
             urlIsSet (process_env w) spec \<and> r \<in> set (ownedRefs (toolRegistry s) spec))"
      using h unfolding owned_iff urlIsSet_def by auto
    then have "r \<notin> set (concat (map (ownedRefs (toolRegistry s))
                 (filter (urlIsSet (process_env w)) (map snd (parsedSpecs s)))))"
      unfolding touched_iff by simp
    then have "?store' r = toolStore s r"
      by (rule fold_updateSpecTools_untouched)
    then show "toolStore ?s' r = toolStore s r" using store by auto
  qed
  have e: "force \<or> env_mtime w \<noteq> lastEnvMtimeMs s \<longrightarrow>
        (\<forall>spec \<in> snd ` set (parsedSpecs s). \<forall>r.
           resolveServerUrl (spec_apiName spec) (process_env w) \<noteq> None
           \<and> (r \<in> set (spec_tools spec)
                \<or> (\<exists>entry \<in> snd ` set (toolRegistry s).
                      spec_apiName (entry_spec entry) = spec_apiName spec \<and> entry_tool entry = r))
           \<longrightarrow> (\<exists>spec' \<in> snd ` set (parsedSpecs s). \<exists>u.
                  resolveServerUrl (spec_apiName spec') (process_env w) = Some u
                  \<and> (r \<in> set (spec_tools spec')
                       \<or> (\<exists>entry \<in> snd ` set (toolRegistry s).
                             spec_apiName (entry_spec entry) = spec_apiName spec'
                             \<and> entry_tool entry = r))
                  \<and> tool_baseUrl (toolStore ?s' r) = resolveToolBaseUrl pf spec' u))"
  proof (intro impI ballI allI)
    fix spec r
    assume run: "force \<or> env_mtime w \<noteq> lastEnvMtimeMs s"
      and spec: "spec \<in> snd ` set (parsedSpecs s)"
      and h: "resolveServerUrl (spec_apiName spec) (process_env w) \<noteq> None
           \<and> (r \<in> set (spec_tools spec)
                \<or> (\<exists>entry \<in> snd ` set (toolRegistry s).
                      spec_apiName (entry_spec entry) = spec_apiName spec \<and> entry_tool entry = r))"
    from h have own: "r \<in> set (ownedRefs (toolRegistry s) spec)"
      unfolding owned_iff by simp
    from h have url: "resolveServerUrl (spec_apiName spec) (process_env w) \<noteq> None" by simp
    show "\<exists>spec' \<in> snd ` set (parsedSpecs s). \<exists>u.
                  resolveServerUrl (spec_apiName spec') (process_env w) = Some u
                  \<and> (r \<in> set (spec_tools spec')
                       \<or> (\<exists>entry \<in> snd ` set (toolRegistry s).
                             spec_apiName (entry_spec entry) = spec_apiName spec'
                             \<and> entry_tool entry = r))
                  \<and> tool_baseUrl (toolStore ?s' r) = resolveToolBaseUrl pf spec' u"
      using refresh_pushes [OF run spec url own] unfolding owned_iff by blast
  qed
  from a c d b e show ?thesis by (intro conjI)
qed

lemma registryOnly_parts:
  "snd ` set (parsedSpecs registryOnlyState) = {carsSpec, petsSpec}"
  "carsSpec \<noteq> petsSpec"
  "spec_apiName carsSpec = ''cars''" "spec_apiName petsSpec = ''pets''"
  "spec_tools carsSpec = [0, 1]" "spec_tools petsSpec = [2]"
  "env_mtime exampleEnvironment \<noteq> lastEnvMtimeMs registryOnlyState"
  "toolStore registryOnlyState 0 = addCarTool"
  "toolStore registryOnlyState 2 = petsTool"
  "toolStore registryOnlyState 3 = listCarsTool"
  by (auto simp: registryOnlyState_def exampleState_def carsSpec_def petsSpec_def
        exampleEnvironment_def)

lemma registryOnly_entries:
  "snd ` set (toolRegistry registryOnlyState)
     = {\<lparr>entry_spec = carsSpec, entry_tool = 0, entry_schema = ZObject [] Strip\<rparr>,
        \<lparr>entry_spec = carsSpec, entry_tool = 1, entry_schema = ZObject [(''id'', ZString)] Strip\<rparr>,
        \<lparr>entry_spec = petsSpec, entry_tool = 2, entry_schema = ZObject [] Strip\<rparr>,
        \<lparr>entry_spec = carsSpec, entry_tool = 3, entry_schema = ZObject [] Strip\<rparr>}"
  by (auto simp: registryOnlyState_def exampleState_def)

theorem hot_reload_changes_only_base_urls_witness:
  "toolStore (refreshEnvConfigIfChanged identityPlatform exampleEnvironment False registryOnlyState) 2
     = petsTool
   \<and> toolStore (refreshEnvConfigIfChanged identityPlatform exampleEnvironment False registryOnlyState) 0
     = addCarTool\<lparr>tool_baseUrl := ''https://cars.example''\<rparr>
   \<and> toolStore (refreshEnvConfigIfChanged identityPlatform exampleEnvironment False registryOnlyState) 3
     = listCarsTool\<lparr>tool_baseUrl := ''https://cars.example''\<rparr>
   \<and> toolStore (refreshEnvConfigIfChanged identityPlatform exampleEnvironment True registryOnlyState) 3
     = listCarsTool\<lparr>tool_baseUrl := ''https://cars.example''\<rparr>"
proof -
  let ?s = registryOnlyState
  have pushed: "toolStore (refreshEnvConfigIfChanged identityPlatform exampleEnvironment force ?s) r
      = (toolStore ?s r)\<lparr>tool_baseUrl := ''https://cars.example''\<rparr>"
    if run: "force \<or> env_mtime exampleEnvironment \<noteq> lastEnvMtimeMs ?s"
      and own: "r \<in> set (spec_tools carsSpec)
                \<or> (\<exists>entry \<in> snd ` set (toolRegistry ?s).
                      spec_apiName (entry_spec entry) = spec_apiName carsSpec \<and> entry_tool entry = r)"
    for force r
  proof -
    note t = hot_reload_changes_only_base_urls [of identityPlatform exampleEnvironment force ?s]
    have cars: "carsSpec \<in> snd ` set (parsedSpecs ?s)"
      and url: "resolveServerUrl (spec_apiName carsSpec) (process_env exampleEnvironment) \<noteq> None"
      by (simp_all add: registryOnly_parts cars_url)
    have "\<exists>spec' \<in> snd ` set (parsedSpecs ?s). \<exists>u.
            resolveServerUrl (spec_apiName spec') (process_env exampleEnvironment) = Some u
          \<and> tool_baseUrl (toolStore
               (refreshEnvConfigIfChanged identityPlatform exampleEnvironment force ?s) r)
              = resolveToolBaseUrl identityPlatform spec' u"
      using t run cars url own by blast
    then have u: "tool_baseUrl (toolStore
               (refreshEnvConfigIfChanged identityPlatform exampleEnvironment force ?s) r)
        = ''https://cars.example''"
      using cars_url pets_url cars_resolved by (auto simp: registryOnly_parts)
    obtain v where v: "toolStore
               (refreshEnvConfigIfChanged identityPlatform exampleEnvironment force ?s) r
        = (toolStore ?s r)\<lparr>tool_baseUrl := v\<rparr>"
      using t by blast
    show ?thesis using u v by simp
  qed
  have a: "toolStore (refreshEnvConfigIfChanged identityPlatform exampleEnvironment False ?s) 2
      = toolStore ?s 2"
    using hot_reload_changes_only_base_urls [of identityPlatform exampleEnvironment False ?s]
      pets_url cars_url
    by (simp add: registryOnly_parts registryOnly_entries)
  have b: "toolStore (refreshEnvConfigIfChanged identityPlatform exampleEnvironment False ?s) 0
      = (toolStore ?s 0)\<lparr>tool_baseUrl := ''https://cars.example''\<rparr>"
    by (rule pushed) (simp_all add: registryOnly_parts)
  have c: "toolStore (refreshEnvConfigIfChanged identityPlatform exampleEnvironment False ?s) 3
      = (toolStore ?s 3)\<lparr>tool_baseUrl := ''https://cars.example''\<rparr>"
    by (rule pushed) (simp_all add: registryOnly_parts registryOnly_entries)
  have d: "toolStore (refreshEnvConfigIfChanged identityPlatform exampleEnvironment True ?s) 3
      = (toolStore ?s 3)\<lparr>tool_baseUrl := ''https://cars.example''\<rparr>"
    by (rule pushed) (simp_all add: registryOnly_parts registryOnly_entries)
  from a b c d show ?thesis by (simp add: registryOnly_parts)
qed

section \<open>Properties of the batch dispatcher\<close>

lemma executeRequest_returns: "\<exists>r. executeRequest pf transport ctx args = Inr r"
  by (auto simp: executeRequest_def split: sum.splits transport_outcome.splits)

lemma refresh_keeps_registry:
  "toolRegistry (refreshEnvConfigIfChanged pf w force s) = toolRegistry s"
  using refresh_cases [of pf w force s] by auto

lemma refresh_keeps_confirmations:
  "largeBatchConfirmations (refreshEnvConfigIfChanged pf w force s) = largeBatchConfirmations s"
  using refresh_cases [of pf w force s] by auto

lemma accepted_iff:
  "fst (isLargeBatchConfirmed table now confirm tok toolName count)
     \<longleftrightarrow> confirm \<and> tok \<noteq> []
         \<and> (\<exists>record. table tok = Some record \<and> now < conf_expiresAt record
                \<and> conf_toolName record = toolName \<and> conf_count record = count)"
  by (auto simp: isLargeBatchConfirmed_def split: option.splits)

lemma accepted_deletes:
  "fst (isLargeBatchConfirmed table now confirm tok toolName count)
     \<Longrightarrow> snd (isLargeBatchConfirmed table now confirm tok toolName count) = table(tok := None)"
  by (auto simp: isLargeBatchConfirmed_def split: option.splits if_splits)

lemma runItems_Nil [simp]: "runItems rt transport failFast schema ctx index [] = []"
  by (simp add: runItems_def)

lemma runItems_Cons [simp]:
  "runItems rt transport failFast schema ctx index (itemArgs # rest) =
     (case rt_safeParse rt schema itemArgs of
        Inl msg \<Rightarrow>
          ItemError index msg
            # (if failFast then [] else runItems rt transport failFast schema ctx (Suc index) rest)
      | Inr parsedData \<Rightarrow>
          (case executeRequest (rt_platform rt) (transport index) ctx parsedData of
             Inr output \<Rightarrow>
               ItemResult index output # runItems rt transport failFast schema ctx (Suc index) rest
           | Inl e \<Rightarrow>
               ItemError index (message e)
                 # (if failFast then [] else runItems rt transport failFast schema ctx (Suc index) rest)))"
  by (simp add: runItems_def Let_def split: sum.splits)

lemma runBatch_runItems:
  "runBatch rt w s entry args =
     runItems rt (inv_transport w) (argFailFast args) (entry_schema entry)
       (contextOfEntry s entry) 0 (argItems args)"
  by (simp add: runBatch_def runBatchTraced_def runItems_def)

lemma specrun_batch_unfold:
  "specrun_batch rt w s0 args =
     (let s = refreshEnvConfigIfChanged (rt_platform rt) (inv_environment w) False s0;
          rawToolName = argRawToolName args;
          toolName = normalizeToolName rawToolName
      in case map_of (toolRegistry s) toolName of
           None \<Rightarrow> (UnknownTool rawToolName toolName, s)
         | Some entry \<Rightarrow>
             (let count = length (argItems args)
              in if largeBatchThreshold < count
                 then (case isLargeBatchConfirmed (largeBatchConfirmations s) (inv_lookup_time w)
                              (argConfirm args) (argToken args) toolName count of
                         (True, table) \<Rightarrow>
                           (BatchResults toolName count (runBatch rt w s entry args),
                            s\<lparr>largeBatchConfirmations := table\<rparr>)
                       | (False, table) \<Rightarrow>
                           (case issueLargeBatchToken table (inv_uuid w) (inv_issue_time w)
                                   toolName count of
                              (tok, table') \<Rightarrow>
                                (ConfirmationRequired toolName count tok,
                                 s\<lparr>largeBatchConfirmations := table'\<rparr>)))
                 else (BatchResults toolName count (runBatch rt w s entry args), s)))"
  by (simp add: specrun_batch_def specrun_batch_traced_def runBatch_def Let_def
        split: option.splits prod.splits bool.splits)

lemma batch_known:
  assumes "map_of (toolRegistry s0) (normalizeToolName (argRawToolName args)) = Some entry"
  shows "specrun_batch rt w s0 args =
     (let s = refreshEnvConfigIfChanged (rt_platform rt) (inv_environment w) False s0;
          toolName = normalizeToolName (argRawToolName args);
          count = length (argItems args);
          check = isLargeBatchConfirmed (largeBatchConfirmations s0) (inv_lookup_time w)
                    (argConfirm args) (argToken args) toolName count
      in if largeBatchThreshold < count
         then (if fst check
               then (BatchResults toolName count (runBatch rt w s entry args),
                     s\<lparr>largeBatchConfirmations := snd check\<rparr>)
               else (ConfirmationRequired toolName count (inv_uuid w),
                     s\<lparr>largeBatchConfirmations :=
                         (snd check)(inv_uuid w \<mapsto>
                            \<lparr>conf_toolName = toolName, conf_count = count,
                             conf_expiresAt = inv_issue_time w + largeBatchTokenTtlMs\<rparr>)\<rparr>))
         else (BatchResults toolName count (runBatch rt w s entry args), s))"
  using assms
  by (simp add: specrun_batch_unfold Let_def refresh_keeps_registry refresh_keeps_confirmations
        issueLargeBatchToken_def split: prod.splits bool.splits)

lemma runItems_length_le:
  "length (runItems rt transport failFast schema ctx index items) \<le> length items"
  by (induction items arbitrary: index) (auto split: sum.splits)

lemma runItems_every_item:
  "length (runItems rt transport False schema ctx index items) = length items"
  by (induction items arbitrary: index) (auto split: sum.splits)





lemma batch_accept:
  assumes "map_of (toolRegistry s0) (normalizeToolName (argRawToolName args)) = Some entry"
    and "largeBatchThreshold < length (argItems args)"
    and "tokenAccepted s0 w args"
  shows "fst (specrun_batch rt w s0 args)
       = BatchResults (normalizeToolName (argRawToolName args)) (length (argItems args))
           (runBatch rt w (refreshEnvConfigIfChanged (rt_platform rt) (inv_environment w) False s0)
              entry args)"
    and "largeBatchConfirmations (snd (specrun_batch rt w s0 args))
       = (largeBatchConfirmations s0)(argToken args := None)"
    and "toolRegistry (snd (specrun_batch rt w s0 args)) = toolRegistry s0"
proof -
  have del: "snd (isLargeBatchConfirmed (largeBatchConfirmations s0) (inv_lookup_time w)
        (argConfirm args) (argToken args) (normalizeToolName (argRawToolName args))
        (length (argItems args)))
      = (largeBatchConfirmations s0)(argToken args := None)"
    using assms(3) unfolding tokenAccepted_def by (rule accepted_deletes)
  show "fst (specrun_batch rt w s0 args)
       = BatchResults (normalizeToolName (argRawToolName args)) (length (argItems args))
           (runBatch rt w (refreshEnvConfigIfChanged (rt_platform rt) (inv_environment w) False s0)
              entry args)"
    using assms by (simp add: batch_known Let_def tokenAccepted_def)
  show "largeBatchConfirmations (snd (specrun_batch rt w s0 args))
       = (largeBatchConfirmations s0)(argToken args := None)"
    using assms del by (simp add: batch_known Let_def tokenAccepted_def)
  show "toolRegistry (snd (specrun_batch rt w s0 args)) = toolRegistry s0"
    using assms by (simp add: batch_known Let_def tokenAccepted_def refresh_keeps_registry)
qed

lemma example_known:
  "map_of (toolRegistry exampleState) ''cars_addCar'' = Some addCarEntry"
  "map_of (toolRegistry exampleState) ''cars_getCarById'' = Some getCarEntry"
  by (simp_all add: exampleState_def addCarEntry_def getCarEntry_def)

lemma example_name:
  "normalizeToolName ''specrun_cars_addCar'' = ''cars_addCar''"
  "normalizeToolName ''cars_getCarById'' = ''cars_getCarById''"
  by (simp_all add: normalizeToolName_def trim_def isWhitespace_def startsWith_def)

lemma batchArgs_requests:
  "requestsBatch (batchArgs ''specrun_cars_addCar'' n extra) ''cars_addCar'' n"
  "requestsBatch (batchArgs ''cars_getCarById'' n extra) ''cars_getCarById'' n"
  by (simp_all add: requestsBatch_def batchArgs_def argRawToolName_def argItems_def lookupKey_def
        js_or_def example_name)



lemma batchArgs_confirm:
  "argConfirm (batchArgs rawName n (confirmFields tok))"
  "argToken (batchArgs rawName n (confirmFields tok)) = tok"
  by (simp_all add: batchArgs_def confirmFields_def argConfirm_def argToken_def lookupKey_def)



lemma getCar_schema: "buildZodSchema Map.empty (Suc depth) getCarTool = Inr (entry_schema getCarEntry)"
proof -
  have "openAPISchemaToZod Map.empty (Suc depth) (JObj [(''type'', JStr ''string'')]) = Inr ZString"
    by (subst openAPISchemaToZod.simps) (simp add: readProp_def deref_def lookupKey_def)
  then show ?thesis
    by (simp add: buildZodSchema_def getCarTool_def addCarTool_def getCarEntry_def js_String.simps
          deref_def lookupKey_def)
qed


lemma failfast_stops_at_invalid_item:
  "rt_safeParse rt schema item = Inl m
     \<Longrightarrow> runItems rt transport True schema ctx index (item # rest) = [ItemError index m]"
  by simp


text \<open>
  Claim C3. The confirmation check accepts exactly when the confirmation flag is
  set, the token is not empty, the table holds a record for it, the record has not
  expired at the time of the lookup (the time is before its expiry), and the tool
  name and the item count of the record equal those of the request. On acceptance
  the record is deleted by the check itself. In the handler the check comes before
  the loop over the items: for a known tool and a batch over the threshold whose
  token is accepted, the table the handler leaves is the table it found without
  the token, whatever the validator, the transport and the items do.
\<close>

theorem confirmation_token_acceptance:
  "(fst (isLargeBatchConfirmed table now confirm tok toolName count)
      \<longleftrightarrow> confirm \<and> tok \<noteq> []
          \<and> (\<exists>record. table tok = Some record \<and> now < conf_expiresAt record
                 \<and> conf_toolName record = toolName \<and> conf_count record = count))
   \<and> (fst (isLargeBatchConfirmed table now confirm tok toolName count)
        \<longrightarrow> snd (isLargeBatchConfirmed table now confirm tok toolName count) = table(tok := None))
   \<and> (map_of (toolRegistry s0) (normalizeToolName (argRawToolName args)) = Some entry
        \<and> largeBatchThreshold < length (argItems args) \<and> tokenAccepted s0 w args
      \<longrightarrow> largeBatchConfirmations (snd (specrun_batch rt w s0 args))
            = (largeBatchConfirmations s0)(argToken args := None)
        \<and> fst (specrun_batch rt w s0 args)
            = BatchResults (normalizeToolName (argRawToolName args)) (length (argItems args))
                (runBatch rt w
                   (refreshEnvConfigIfChanged (rt_platform rt) (inv_environment w) False s0)
                   entry args))"
  using accepted_iff [of table now confirm tok toolName count]
    accepted_deletes [of table now confirm tok toolName count]
    batch_accept(1,2) [of s0 args entry w rt]
  by blast

theorem confirmation_token_acceptance_witness:
  "fst (isLargeBatchConfirmed (largeBatchConfirmations pendingState) 2000 True ''t1'' ''cars_getCarById'' 201)
   \<and> snd (isLargeBatchConfirmed (largeBatchConfirmations pendingState) 2000 True ''t1''
            ''cars_getCarById'' 201) ''t1'' = None
   \<and> \<not> fst (isLargeBatchConfirmed (largeBatchConfirmations pendingState) 301000 True ''t1''
              ''cars_getCarById'' 201)
   \<and> \<not> fst (isLargeBatchConfirmed (largeBatchConfirmations pendingState) 2000 True ''t1''
              ''cars_getCarById'' 202)
   \<and> largeBatchConfirmations
         (snd (specrun_batch presenceRuntime (invocationAt 2000 ''t2'') pendingState
                 (batchArgs ''cars_getCarById'' 201 (confirmFields ''t1'')))) ''t1'' = None
   \<and> processedItems
         (fst (specrun_batch presenceRuntime (invocationAt 2000 ''t2'') pendingState
                 (batchArgs ''cars_getCarById'' 201 (confirmFields ''t1'')))) = 201"
proof -
  let ?table = "largeBatchConfirmations pendingState"
  let ?args = "batchArgs ''cars_getCarById'' 201 (confirmFields ''t1'')"
  let ?w = "invocationAt 2000 ''t2''"
  have tb: "?table ''t1''
      = Some \<lparr>conf_toolName = ''cars_getCarById'', conf_count = 201, conf_expiresAt = 301000\<rparr>"
    by (simp add: pendingState_def)
  note t1 = confirmation_token_acceptance
    [where table = ?table and now = 2000 and confirm = True and tok = "''t1''"
       and toolName = "''cars_getCarById''" and count = 201
       and ?s0.0 = pendingState and args = ?args and entry = getCarEntry and w = ?w
       and rt = presenceRuntime]
  have a: "fst (isLargeBatchConfirmed ?table 2000 True ''t1'' ''cars_getCarById'' 201)"
    using t1 tb by simp
  then have b: "snd (isLargeBatchConfirmed ?table 2000 True ''t1'' ''cars_getCarById'' 201) ''t1'' = None"
    using t1 by simp
  have c: "\<not> fst (isLargeBatchConfirmed ?table 301000 True ''t1'' ''cars_getCarById'' 201)"
    using confirmation_token_acceptance
      [where table = ?table and now = 301000 and confirm = True and tok = "''t1''"
         and toolName = "''cars_getCarById''" and count = 201] tb
    by simp
  have d: "\<not> fst (isLargeBatchConfirmed ?table 2000 True ''t1'' ''cars_getCarById'' 202)"
    using confirmation_token_acceptance
      [where table = ?table and now = 2000 and confirm = True and tok = "''t1''"
         and toolName = "''cars_getCarById''" and count = 202] tb
    by simp
  have rq: "requestsBatch ?args ''cars_getCarById'' 201" by (rule batchArgs_requests(2))
  have k: "map_of (toolRegistry pendingState) (normalizeToolName (argRawToolName ?args))
      = Some getCarEntry"
    using rq example_known(2) by (simp add: requestsBatch_def pendingState_def)
  have big: "largeBatchThreshold < length (argItems ?args)"
    using rq by (simp add: requestsBatch_def largeBatchThreshold_def)
  have acc: "tokenAccepted pendingState ?w ?args"
    using a rq by (simp add: tokenAccepted_def requestsBatch_def batchArgs_confirm invocationAt_def)
  have both: "largeBatchConfirmations (snd (specrun_batch presenceRuntime ?w pendingState ?args))
            = ?table(argToken ?args := None)
        \<and> fst (specrun_batch presenceRuntime ?w pendingState ?args)
            = BatchResults (normalizeToolName (argRawToolName ?args)) (length (argItems ?args))
                (runBatch presenceRuntime ?w
                   (refreshEnvConfigIfChanged (rt_platform presenceRuntime) (inv_environment ?w)
                      False pendingState)
                   getCarEntry ?args)"
    using t1 k big acc by blast
  have e: "largeBatchConfirmations (snd (specrun_batch presenceRuntime ?w pendingState ?args)) ''t1''
      = None"
    using both by (simp add: batchArgs_confirm)
  have nf: "\<not> argFailFast ?args"
    by (simp add: batchArgs_def confirmFields_def argFailFast_def lookupKey_def)
  have f: "processedItems (fst (specrun_batch presenceRuntime ?w pendingState ?args)) = 201"
    using both rq nf
    by (simp add: processedItems_def runBatch_runItems runItems_every_item requestsBatch_def)
  from a b c d e f show ?thesis by (intro conjI)
qed



lemma executedIndices_simps:
  "executedIndices [] = []"
  "executedIndices (Validate i item # calls) = executedIndices calls"
  "executedIndices (Execute i parsedData # calls) = i # executedIndices calls"
  by (simp_all add: executedIndices_def)




text \<open>The items with a result are the items the executor was called on.\<close>

lemma results_are_executions:
  "length (filter isItemResult (fst (runItemsTraced rt transport failFast schema ctx index items)))
     = length (executedIndices (snd (runItemsTraced rt transport failFast schema ctx index items)))"
proof (induction items arbitrary: index)
  case Nil
  show ?case by (simp add: executedIndices_simps)
next
  case (Cons item items)
  show ?case
  proof (cases "rt_safeParse rt schema item")
    case (Inl msg)
    then show ?thesis using Cons.IH [of "Suc index"]
      by (cases failFast) (simp_all add: Let_def executedIndices_simps)
  next
    case (Inr d)
    obtain r where r: "executeRequest (rt_platform rt) (transport index) ctx d = Inr r"
      using executeRequest_returns by blast
    show ?thesis using Inr r Cons.IH [of "Suc index"]
      by (simp add: Let_def executedIndices_simps)
  qed
qed






end
